theory Spec2Isabelle
  imports Complex_Main "HOL-Library.AList"
begin

section \<open>Python values\<close>

text \<open>
  The program is \<^verbatim>\<open>src/backend/main.py\<close>. A Python \<^verbatim>\<open>str\<close> is modelled as the list of its
  characters (\<^typ>\<open>string\<close>), so that \<^verbatim>\<open>s[:n]\<close> is \<^term>\<open>take n s\<close> and \<^verbatim>\<open>a + b\<close> is
  \<^term>\<open>a @ b\<close>. An exception is a value of \<open>exc\<close>; a call that may raise returns
  \<open>exc + 'a\<close>, with \<open>Inl\<close> for the exception.
\<close>

datatype exc =
  ValueError string
  | AttributeError string
  | FileNotFoundError
  | CollaboratorError string
  | HTTPException nat string

text \<open>\<^verbatim>\<open>s.startswith(p)\<close> and \<^verbatim>\<open>p in s\<close> on strings.\<close>

fun startswith :: "string \<Rightarrow> string \<Rightarrow> bool" where
  "startswith s [] = True"
| "startswith [] (p # ps) = False"
| "startswith (c # cs) (p # ps) = (c = p \<and> startswith cs ps)"

fun py_in :: "string \<Rightarrow> string \<Rightarrow> bool" where
  "py_in p [] = (p = [])"
| "py_in p (c # cs) = (startswith (c # cs) p \<or> py_in p cs)"

text \<open>
  \<^verbatim>\<open>s.upper()\<close>: the ASCII letters, and the one character below 256 whose upper case
  is made of ASCII letters (the sharp s, \<^verbatim>\<open>SS\<close>). The only use of \<^verbatim>\<open>upper\<close> in the program
  is a search for ASCII words in the result.
\<close>

definition upper_char :: "char \<Rightarrow> string" where
  "upper_char c =
     (case map_of (zip ''abcdefghijklmnopqrstuvwxyz'' ''ABCDEFGHIJKLMNOPQRSTUVWXYZ'') c of
        Some u \<Rightarrow> [u]
      | None \<Rightarrow> if c = CHR 0xDF then ''SS'' else [c])"

definition upper :: "string \<Rightarrow> string" where
  "upper s = concat (map upper_char s)"

text \<open>\<^verbatim>\<open>s.strip()\<close>: the characters below 256 that \<^verbatim>\<open>str.isspace\<close> accepts are removed at both ends.\<close>

definition isspace :: "char \<Rightarrow> bool" where
  "isspace c =
     (let k = (of_char c :: nat) in
      (9 \<le> k \<and> k \<le> 13) \<or> (28 \<le> k \<and> k \<le> 32) \<or> k = 133 \<or> k = 160)"

definition strip :: "string \<Rightarrow> string" where
  "strip s = rev (dropWhile isspace (rev (dropWhile isspace s)))"

text \<open>\<^verbatim>\<open>str(n)\<close> for a natural number and for an integer (the f-strings format counts and pages).\<close>

definition digit :: "nat \<Rightarrow> char" where
  "digit d =
     (if d = 0 then CHR ''0'' else if d = 1 then CHR ''1'' else if d = 2 then CHR ''2''
      else if d = 3 then CHR ''3'' else if d = 4 then CHR ''4'' else if d = 5 then CHR ''5''
      else if d = 6 then CHR ''6'' else if d = 7 then CHR ''7'' else if d = 8 then CHR ''8''
      else CHR ''9'')"

fun str_nat :: "nat \<Rightarrow> string" where
  "str_nat n = (if n < 10 then [digit n] else str_nat (n div 10) @ [digit (n mod 10)])"

declare str_nat.simps [simp del]

definition str_int :: "int \<Rightarrow> string" where
  "str_int i = (if i < 0 then ''-'' @ str_nat (nat (- i)) else str_nat (nat i))"


section \<open>Image extraction from a PDF\<close>

text \<open>
  \<^verbatim>\<open>pdf_page_images\<close> (lines 261-305) walks the pages of a document opened by PyMuPDF.
  PyMuPDF and PIL are collaborators: a page is given by what the calls on it return.
  A raster image of the page is what \<^verbatim>\<open>fitz.Pixmap(doc, xref)\<close> returns for it (a pixmap, or
  the exception raised); a drawing is its bounding rectangle together with what
  \<^verbatim>\<open>page.get_pixmap(clip=rect, dpi=150)\<close> returns for it.
\<close>

record pixmap =
  pix_n :: nat
  pix_width :: nat
  pix_height :: nat
  pix_samples :: "nat list"

record pil_image =
  img_width :: nat
  img_height :: nat
  img_data :: "nat list"

record drawing =
  rect_width :: real
  rect_height :: real
  clip_pixmap :: "exc + pixmap"

record pdf_page =
  page_images :: "(exc + pixmap) list"
  page_drawings :: "drawing list"

text \<open>
  The conversions the extractor calls: \<^verbatim>\<open>fitz.Pixmap(fitz.csRGB, pix)\<close>,
  \<^verbatim>\<open>Image.frombytes("RGB", [w, h], samples)\<close>, and the base64 text of the PNG that
  \<^verbatim>\<open>img.save(buf, format="PNG")\<close> writes.
\<close>

record imaging =
  to_rgb :: "pixmap \<Rightarrow> exc + pixmap"
  frombytes :: "nat \<Rightarrow> nat \<Rightarrow> nat list \<Rightarrow> exc + pil_image"
  png_base64 :: "pil_image \<Rightarrow> string"

definition pil_to_data_uri :: "imaging \<Rightarrow> pil_image \<Rightarrow> string" where
  "pil_to_data_uri im img = ''data:image/png;base64,'' @ png_base64 im img"

text \<open>
  The body of the loop over raster images (lines 271-286): the data URIs it appends to
  \<^verbatim>\<open>images\<close>. Every exception inside the \<^verbatim>\<open>try\<close> is caught and the image is left out.
\<close>

definition raster_image :: "imaging \<Rightarrow> exc + pixmap \<Rightarrow> string list" where
  "raster_image im r =
     (case r of
        Inl e \<Rightarrow> []
      | Inr pix \<Rightarrow>
          if pix_n pix < 4 \<and> (pix_width pix < 100 \<or> pix_height pix < 100) then []
          else
            (case (if pix_n pix \<ge> 4 then to_rgb im pix else Inr pix) of
               Inl e \<Rightarrow> []
             | Inr pix' \<Rightarrow>
                 (case frombytes im (pix_width pix') (pix_height pix') (pix_samples pix') of
                    Inl e \<Rightarrow> []
                  | Inr img_pil \<Rightarrow> [pil_to_data_uri im img_pil])))"

text \<open>The body of the loop over vector drawings (lines 289-299).\<close>

definition vector_drawing :: "imaging \<Rightarrow> drawing \<Rightarrow> string list" where
  "vector_drawing im d =
     (if rect_width d < 100 \<or> rect_height d < 100 then []
      else
        (case clip_pixmap d of
           Inl e \<Rightarrow> []
         | Inr pix \<Rightarrow>
             (case frombytes im (pix_width pix) (pix_height pix) (pix_samples pix) of
                Inl e \<Rightarrow> []
              | Inr img_pil \<Rightarrow> [pil_to_data_uri im img_pil])))"

definition page_image_uris :: "imaging \<Rightarrow> pdf_page \<Rightarrow> string list" where
  "page_image_uris im p =
     concat (map (raster_image im) (page_images p)) @
     concat (map (vector_drawing im) (page_drawings p))"

text \<open>
  The loop over \<^verbatim>\<open>range(len(doc))\<close>; the dictionary \<^verbatim>\<open>out\<close> is the list of its items in
  insertion order, keyed by \<^verbatim>\<open>pno + 1\<close>.
\<close>

fun pdf_pages_from :: "imaging \<Rightarrow> nat \<Rightarrow> pdf_page list \<Rightarrow> (nat \<times> string list) list" where
  "pdf_pages_from im pno [] = []"
| "pdf_pages_from im pno (p # ps) =
     (let images = page_image_uris im p in
      (if images \<noteq> [] then [(pno + 1, images)] else []) @ pdf_pages_from im (pno + 1) ps)"

definition pdf_page_images :: "imaging \<Rightarrow> pdf_page list \<Rightarrow> (nat \<times> string list) list" where
  "pdf_page_images im doc = pdf_pages_from im 0 doc"


section \<open>Elements and their summaries\<close>

text \<open>
  An element is the dictionary built at lines 379-382, 388-391, 402-405 and 427-434.
  The keys \<^verbatim>\<open>page\<close>, \<^verbatim>\<open>image_index\<close> and \<^verbatim>\<open>chunk_index\<close> are present for some kinds only:
  \<open>None\<close> is the absent key, and \<open>Some None\<close> for \<open>page\<close> is a page number that is
  \<^verbatim>\<open>None\<close>. \<open>text_content\<close> and \<open>html_content\<close> are the two keys of a table element.
  The summary is added to the dictionary after summarization: a processed element is an
  element extended by its summary.
\<close>

datatype kind = Image | Table | Text

record element =
  doc_id :: string
  type :: kind
  original :: string
  source :: string
  page :: "int option option"
  image_index :: "nat option"
  text_content :: string
  html_content :: string
  chunk_index :: "nat option"

record processed_element = element +
  summary :: string

definition with_summary :: "element \<Rightarrow> string \<Rightarrow> processed_element" where
  "with_summary elem s = element.extend elem (processed_element.fields s)"

text \<open>The name of a kind, as the key \<^verbatim>\<open>type\<close> holds it.\<close>

fun kind_name :: "kind \<Rightarrow> string" where
  "kind_name Image = ''image''"
| "kind_name Table = ''table''"
| "kind_name Text = ''text''"

subsection \<open>Messages to the generative model\<close>

datatype part = TextPart string | ImageUrlPart string

datatype content = Str string | Parts "part list"

datatype message = SystemMessage content | HumanMessage content

text \<open>
  \<^verbatim>\<open>llm.ainvoke(messages)\<close>: the content of the reply, or the exception raised. The
  module-level handle \<^verbatim>\<open>llm\<close> is \<^verbatim>\<open>None\<close> or a model (lines 101 and 124), hence the option.
\<close>

type_synonym chat_model = "message list \<Rightarrow> exc + string"

subsection \<open>The three summarizers (lines 313-357)\<close>

definition image_message :: "string \<Rightarrow> message" where
  "image_message image_b64 =
     HumanMessage (Parts
       [TextPart ''Describe this image in detail. Focus on key visual elements, text, diagrams, charts, and any important information shown.'',
        ImageUrlPart image_b64])"

definition summarize_image_async :: "chat_model option \<Rightarrow> string \<Rightarrow> string" where
  "summarize_image_async llm image_b64 =
     (case llm of
        None \<Rightarrow> ''Image content could not be analyzed.''
      | Some model \<Rightarrow>
          (case model [image_message image_b64] of
             Inr response_content \<Rightarrow> response_content
           | Inl e \<Rightarrow> ''Image content could not be analyzed.''))"

definition table_message :: "string \<Rightarrow> string \<Rightarrow> message" where
  "table_message table_html table_text =
     HumanMessage (Str
       (''Summarize the key information in this table concisely. Focus on main data points, trends, and relationships.\<newline>\<newline>Table HTML:\<newline>''
        @ take 2000 table_html
        @ ''\<newline>\<newline>Table Text:\<newline>''
        @ take 1000 table_text
        @ ''\<newline>\<newline>Provide a clear, structured summary.''))"

definition summarize_table_async :: "chat_model option \<Rightarrow> string \<Rightarrow> string \<Rightarrow> string" where
  "summarize_table_async llm table_html table_text =
     (case llm of
        None \<Rightarrow> ''Table content: '' @ take 500 table_text
      | Some model \<Rightarrow>
          (case model [table_message table_html table_text] of
             Inr response_content \<Rightarrow> response_content
           | Inl e \<Rightarrow> ''Table content: '' @ take 500 table_text))"

definition summarize_text_async :: "string \<Rightarrow> int option \<Rightarrow> nat \<Rightarrow> string" where
  "summarize_text_async text_chunk page_num chunk_idx =
     (if page_num = Some 1 \<and> chunk_idx = 0
      then ''This document/research paper discusses: '' @ text_chunk
      else text_chunk)"


section \<open>The stores and the records kept on disk\<close>

text \<open>
  A summary document is LangChain's \<^verbatim>\<open>Document(page_content, metadata)\<close>; the metadata
  dictionary has the keys written at lines 507-509 (an absent key is \<open>None\<close>). The field
  names carry a prefix because record fields share one name space.
\<close>

record metadata =
  md_doc_id :: "string option"
  md_type :: "kind option"
  md_source :: "string option"
  md_page :: "int option option"
  md_chunk :: "nat option"

record summary_doc =
  page_content :: string
  metadata :: metadata

record stats =
  images :: nat
  tables :: nat
  texts :: nat

record document =
  d_id :: string
  d_name :: string
  d_path :: string
  d_uploadedAt :: string
  d_preview :: string
  d_stats :: stats

record chat_message =
  m_sender :: string
  m_text :: string
  m_chunks :: "summary_doc list option"

record chat =
  c_id :: string
  c_document_id :: string
  c_created_at :: string
  c_title :: string
  c_messages :: "chat_message list"

text \<open>
  What the program keeps on disk: the saved FAISS index (\<open>None\<close>: there is no
  \<^verbatim>\<open>faiss_index/index.faiss\<close>), the \<^verbatim>\<open>LocalFileStore\<close> under \<^verbatim>\<open>docstore/\<close> (one value per
  key; the value is the JSON text of the processed element, kept here as the element),
  \<^verbatim>\<open>documents.json\<close> and \<^verbatim>\<open>chat_history.json\<close> (\<open>None\<close>: the file does not exist; the
  dictionary of chats is the list of its items in insertion order), and the paths of the
  uploaded files that exist.
\<close>

record state =
  faiss_index :: "summary_doc list option"
  docstore :: "string \<rightharpoonup> processed_element"
  documents_file :: "document list option"
  chat_history_file :: "(string \<times> chat) list option"
  uploads :: "string set"

text \<open>The dictionaries the two generators of the ingestion yield.\<close>

datatype event =
  Status string string
  | Element processed_element
  | Complete document chat

text \<open>
  The collaborators and the choices of the world, as the program meets them:
  \<^item> \<open>llm\<close>, \<open>vectorstore\<close>: the module-level handles of lines 100-105 (\<^verbatim>\<open>None\<close>, or a
    model and a loaded index), which the summarizers and \<^verbatim>\<open>query_rag\<close> use;
  \<^item> \<open>extraction\<close>: lines 362-436 of \<^verbatim>\<open>build_multimodal_elements_streaming\<close> (partitioning,
    image extraction, chunking): the status updates yielded (step and message), and either the exception
    raised or the three lists \<^verbatim>\<open>image_elements_to_process\<close>,
    \<^verbatim>\<open>table_elements_to_process\<close>, \<^verbatim>\<open>text_elements_to_process\<close>;
  \<^item> \<open>completion_picks\<close>: the order in which the summarization tasks finish;
  \<^item> \<open>embed_documents\<close>: the embedding service on a batch of texts, \<open>Some e\<close> when it
    raises \<open>e\<close>;
  \<^item> \<open>similarity_search\<close>: the search of an index for a query and a number of results;
  \<^item> \<open>astream\<close>: the contents of the chunks the streaming model yields for a prompt, and
    the text of the exception that ends the stream, if one does;
  \<^item> \<open>chat_uuid\<close>, \<open>now_manifest\<close>, \<open>now_chat\<close>: the values of \<^verbatim>\<open>uuid.uuid4()\<close> at line 549
    and of \<^verbatim>\<open>datetime.now().isoformat()\<close> at lines 530/539 and 553.
\<close>

record env =
  llm :: "chat_model option"
  vectorstore :: "summary_doc list option"
  extraction :: "string \<Rightarrow> (string \<times> string) list \<times> (exc + element list \<times> element list \<times> element list)"
  completion_picks :: "nat list"
  embed_documents :: "string list \<Rightarrow> exc option"
  similarity_search :: "summary_doc list \<Rightarrow> string \<Rightarrow> int \<Rightarrow> exc + summary_doc list"
  astream :: "message list \<Rightarrow> string list \<times> string option"
  chat_uuid :: string
  now_manifest :: string
  now_chat :: string


section \<open>Concurrent summarization\<close>

text \<open>
  \<^verbatim>\<open>asyncio.as_completed(all_tasks)\<close> yields the results in the order in which the tasks
  finish. Each pick names which of the tasks still pending (in submission order, counted
  modulo their number) finishes next; when the picks run out the rest finish in
  submission order. Every task finishes exactly once.
\<close>

function as_completed :: "nat list \<Rightarrow> 'a list \<Rightarrow> 'a list" where
  "as_completed picks [] = []"
| "as_completed [] (t # ts) = t # ts"
| "as_completed (p # ps) (t # ts) =
     (let i = p mod length (t # ts) in
      (t # ts) ! i # as_completed ps (take i (t # ts) @ drop (Suc i) (t # ts)))"
  by pat_completeness auto
termination
  by (relation "measure (\<lambda>(picks, tasks). length tasks)") auto

text \<open>
  The three loops of lines 459-472: each element takes \<^verbatim>\<open>summaries[summary_idx]\<close>, and
  \<^verbatim>\<open>summary_idx\<close> runs on from one list to the next.
\<close>

fun assign_summaries :: "string list \<Rightarrow> nat \<Rightarrow> element list \<Rightarrow> processed_element list" where
  "assign_summaries summaries summary_idx [] = []"
| "assign_summaries summaries summary_idx (elem # elems) =
     with_summary elem (summaries ! summary_idx) # assign_summaries summaries (Suc summary_idx) elems"

definition page_of :: "element \<Rightarrow> int option" where
  "page_of e = (case page e of None \<Rightarrow> None | Some p \<Rightarrow> p)"

definition chunk_index_of :: "element \<Rightarrow> nat" where
  "chunk_index_of e = (case chunk_index e of None \<Rightarrow> 0 | Some i \<Rightarrow> i)"

definition all_tasks :: "chat_model option \<Rightarrow> element list \<Rightarrow> element list \<Rightarrow> element list \<Rightarrow> string list" where
  "all_tasks model image_elements table_elements text_elements =
     map (\<lambda>e. summarize_image_async model (original e)) image_elements @
     map (\<lambda>e. summarize_table_async model (html_content e) (text_content e)) table_elements @
     map (\<lambda>e. summarize_text_async (original e) (page_of e) (chunk_index_of e)) text_elements"

definition summarized_status :: "nat \<Rightarrow> nat \<Rightarrow> event" where
  "summarized_status total_tasks i =
     Status ''summarizing'' (''Summarized element '' @ str_nat (i + 1) @ ''/'' @ str_nat total_tasks @ ''...'')"

definition build_multimodal_elements_streaming :: "env \<Rightarrow> string \<Rightarrow> event list \<times> exc option" where
  "build_multimodal_elements_streaming env file_path =
     (case extraction env file_path of
        (extraction_updates, Inl e) \<Rightarrow> (map (\<lambda>(step, msg). Status step msg) extraction_updates, Some e)
      | (extraction_updates, Inr (image_elements, table_elements, text_elements)) \<Rightarrow>
          (let tasks = all_tasks (llm env) image_elements table_elements text_elements;
               total_tasks = length tasks;
               summaries = as_completed (completion_picks env) tasks;
               all_processed_elements =
                 assign_summaries summaries 0 image_elements @
                 assign_summaries summaries (length image_elements) table_elements @
                 assign_summaries summaries (length image_elements + length table_elements) text_elements
           in (map (\<lambda>(step, msg). Status step msg) extraction_updates
               @ [Status ''summarizing'' ''Starting concurrent summarization of all elements...'']
               @ map (summarized_status total_tasks) [0..<total_tasks]
               @ map Element all_processed_elements,
               None)))"

text \<open>The elements among the dictionaries a generator yields (\<^verbatim>\<open>status.get("type") == "element"\<close>).\<close>

fun elements_of :: "event list \<Rightarrow> processed_element list" where
  "elements_of [] = []"
| "elements_of (Element elem # evs) = elem # elements_of evs"
| "elements_of (ev # evs) = elements_of evs"


section \<open>Ingestion\<close>

subsection \<open>The similarity index\<close>

text \<open>
  LangChain's FAISS store is a collaborator: an index is the list of the documents added
  to it. Building an index and adding to it embed the page contents, and the embedding
  service may raise. \<^verbatim>\<open>get_vectorstore\<close> (lines 197-208) loads the saved index or builds
  and saves one that holds a placeholder document without metadata.
\<close>

definition dummy_doc :: summary_doc where
  "dummy_doc =
     \<lparr>page_content = ''initial empty doc'',
      metadata = \<lparr>md_doc_id = None, md_type = None, md_source = None, md_page = None, md_chunk = None\<rparr>\<rparr>"

definition from_documents :: "env \<Rightarrow> summary_doc list \<Rightarrow> exc + summary_doc list" where
  "from_documents env docs =
     (case embed_documents env (map page_content docs) of
        Some e \<Rightarrow> Inl e
      | None \<Rightarrow> Inr docs)"

definition add_documents :: "env \<Rightarrow> summary_doc list \<Rightarrow> summary_doc list \<Rightarrow> exc + summary_doc list" where
  "add_documents env vs docs =
     (case embed_documents env (map page_content docs) of
        Some e \<Rightarrow> Inl e
      | None \<Rightarrow> Inr (vs @ docs))"

definition get_vectorstore :: "env \<Rightarrow> state \<Rightarrow> (exc + summary_doc list) \<times> state" where
  "get_vectorstore env st =
     (case faiss_index st of
        Some vs \<Rightarrow> (Inr vs, st)
      | None \<Rightarrow>
          (case from_documents env [dummy_doc] of
             Inl e \<Rightarrow> (Inl e, st)
           | Inr vs \<Rightarrow> (Inr vs, st\<lparr>faiss_index := Some vs\<rparr>)))"

subsection \<open>Writing the two stores (lines 500-512)\<close>

definition element_metadata :: "processed_element \<Rightarrow> metadata" where
  "element_metadata elem =
     \<lparr>md_doc_id = Some (doc_id elem), md_type = Some (type elem), md_source = Some (source elem),
      md_page = page elem, md_chunk = chunk_index elem\<rparr>"

definition indexing_status :: "processed_element \<Rightarrow> nat \<Rightarrow> nat \<Rightarrow> event" where
  "indexing_status elem total_indexed total_elements =
     Status ''indexing''
       (''Indexing '' @ kind_name (type elem) @ '' element '' @ str_nat total_indexed
        @ ''/'' @ str_nat total_elements @ ''...'')"

definition summary_document :: "processed_element \<Rightarrow> summary_doc" where
  "summary_document elem = \<lparr>page_content = summary elem, metadata = element_metadata elem\<rparr>"

fun index_elements ::
  "env \<Rightarrow> nat \<Rightarrow> nat \<Rightarrow> processed_element list \<Rightarrow> summary_doc list \<Rightarrow> (string \<rightharpoonup> processed_element) \<Rightarrow>
   event list \<times> summary_doc list \<times> (string \<rightharpoonup> processed_element) \<times> exc option" where
  "index_elements env total_indexed total_elements [] vs ds = ([], vs, ds, None)"
| "index_elements env total_indexed total_elements (elem # elems) vs ds =
     (let total_indexed' = total_indexed + 1;
          ev = indexing_status elem total_indexed' total_elements;
          ds' = ds(doc_id elem \<mapsto> elem)
      in case add_documents env vs [summary_document elem] of
           Inl e \<Rightarrow> ([ev], vs, ds', Some e)
         | Inr vs' \<Rightarrow>
             (case index_elements env total_indexed' total_elements elems vs' ds' of
                (evs, r) \<Rightarrow> (ev # evs, r)))"

subsection \<open>The manifest (lines 517-545)\<close>

text \<open>
  \<^verbatim>\<open>next((i for i, doc in enumerate(documents) if doc["name"] == original_filename), -1)\<close>;
  \<open>None\<close> is the \<^verbatim>\<open>-1\<close>.
\<close>

fun existing_doc_index :: "string \<Rightarrow> document list \<Rightarrow> nat option" where
  "existing_doc_index original_filename [] = None"
| "existing_doc_index original_filename (doc # docs) =
     (if d_name doc = original_filename then Some 0
      else map_option Suc (existing_doc_index original_filename docs))"

definition preview_text :: "string \<Rightarrow> stats \<Rightarrow> string" where
  "preview_text verb s =
     verb @ '' with '' @ str_nat (texts s) @ '' texts, '' @ str_nat (images s) @ '' images, ''
     @ str_nat (tables s) @ '' tables.''"

definition update_manifest ::
  "env \<Rightarrow> string \<Rightarrow> string \<Rightarrow> string \<Rightarrow> stats \<Rightarrow> document list \<Rightarrow> document list \<times> document" where
  "update_manifest env fp doc_id' original_filename s documents =
     (case existing_doc_index original_filename documents of
        Some i \<Rightarrow>
          (let new_document_record =
                 (documents ! i)\<lparr>d_uploadedAt := now_manifest env, d_stats := s,
                                  d_preview := preview_text ''Re-indexed'' s\<rparr>
           in (documents[i := new_document_record], new_document_record))
      | None \<Rightarrow>
          (let new_document_record =
                 \<lparr>d_id = doc_id', d_name = original_filename, d_path = fp,
                  d_uploadedAt = now_manifest env, d_preview = preview_text ''Indexed'' s,
                  d_stats = s\<rparr>
           in (documents @ [new_document_record], new_document_record)))"

subsection \<open>\<^verbatim>\<open>index_file_streaming\<close> (lines 478-562)\<close>

fun is_element :: "event \<Rightarrow> bool" where
  "is_element (Element elem) = True"
| "is_element ev = False"

text \<open>
  The result is the events yielded, the state left on disk, and the exception that ended
  the generator, if one did. The parameter \<^verbatim>\<open>doc_id\<close> of the source is written \<open>doc_id'\<close>
  (\<open>doc_id\<close> is the key of an element). The last part of the function, from saving the index to the
  \<^verbatim>\<open>complete\<close> event (lines 514-562), is \<open>save_and_register\<close>.
\<close>

text \<open>Lines 520-523: the manifest as read; a missing file reads as the empty list.\<close>

definition read_documents :: "state \<Rightarrow> document list" where
  "read_documents st = (case documents_file st of None \<Rightarrow> [] | Some docs \<Rightarrow> docs)"

text \<open>Lines 549-556: the conversation created for the upload.\<close>

definition new_chat_record :: "env \<Rightarrow> string \<Rightarrow> string \<Rightarrow> chat" where
  "new_chat_record env doc_id' original_filename =
     \<lparr>c_id = chat_uuid env, c_document_id = doc_id', c_created_at = now_chat env,
      c_title = original_filename, c_messages = []\<rparr>"

definition save_and_register ::
  "env \<Rightarrow> state \<Rightarrow> string \<Rightarrow> string \<Rightarrow> string \<Rightarrow> summary_doc list \<Rightarrow> stats \<Rightarrow>
   event list \<times> state \<times> exc option" where
  "save_and_register env st fp doc_id' original_filename vectorstore_user s =
     (let st1 = st\<lparr>faiss_index := Some vectorstore_user\<rparr>;
          documents = read_documents st1
      in case update_manifest env fp doc_id' original_filename s documents of
           (documents', new_document_record) \<Rightarrow>
             (let st2 = st1\<lparr>documents_file := Some documents'\<rparr>;
                  events = [Status ''saving'' ''Saving vector index to disk...'',
                            Status ''manifest'' ''Updating document manifest...'']
              in case chat_history_file st2 of
                   None \<Rightarrow> (events, st2, Some FileNotFoundError)
                 | Some chat_history \<Rightarrow>
                     (let chat_id = chat_uuid env;
                          new_chat = new_chat_record env doc_id' original_filename;
                          st3 = st2\<lparr>chat_history_file := Some (AList.update chat_id new_chat chat_history)\<rparr>
                      in (events @ [Complete new_document_record new_chat], st3, None))))"

text \<open>
  The dictionary \<^verbatim>\<open>all_elements\<close> of lines 486-491 holds the elements by kind; the loop of
  line 500 walks its values in the order \<^verbatim>\<open>images\<close>, \<^verbatim>\<open>tables\<close>, \<^verbatim>\<open>texts\<close>, and line 527
  counts them.
\<close>

definition elements_by_kind :: "processed_element list \<Rightarrow> processed_element list" where
  "elements_by_kind elems =
     filter (\<lambda>elem. type elem = Image) elems @
     filter (\<lambda>elem. type elem = Table) elems @
     filter (\<lambda>elem. type elem = Text) elems"

definition count_stats :: "processed_element list \<Rightarrow> stats" where
  "count_stats elems =
     \<lparr>images = length (filter (\<lambda>elem. type elem = Image) elems),
      tables = length (filter (\<lambda>elem. type elem = Table) elems),
      texts = length (filter (\<lambda>elem. type elem = Text) elems)\<rparr>"

definition index_file_streaming ::
  "env \<Rightarrow> state \<Rightarrow> string \<Rightarrow> string \<Rightarrow> string \<Rightarrow> event list \<times> state \<times> exc option" where
  "index_file_streaming env st fp doc_id' original_filename =
     (case get_vectorstore env st of
        (Inl e, st0) \<Rightarrow> ([], st0, Some e)
      | (Inr vectorstore_user, st0) \<Rightarrow>
          (case build_multimodal_elements_streaming env fp of
             (generated, gen_exc) \<Rightarrow>
               (let elems = elements_of generated;
                    events1 = Status ''extraction'' (''Processing file: '' @ original_filename)
                              # filter (\<lambda>ev. \<not> is_element ev) generated
                in case gen_exc of
                     Some e \<Rightarrow> (events1, st0, Some e)
                   | None \<Rightarrow>
                       (let total_elements = length (elements_by_kind elems)
                        in case index_elements env 0 total_elements (elements_by_kind elems)
                                  vectorstore_user (docstore st0) of
                             (indexing_events, vs, ds, idx_exc) \<Rightarrow>
                               (let events2 = events1
                                      @ [Status ''indexing'' ''Storing summaries and original documents...'']
                                      @ indexing_events;
                                    st1 = st0\<lparr>docstore := ds\<rparr>
                                in case idx_exc of
                                     Some e \<Rightarrow> (events2, st1, Some e)
                                   | None \<Rightarrow>
                                       (case save_and_register env st1 fp doc_id' original_filename vs
                                               (count_stats elems) of
                                          (events3, st2, exc3) \<Rightarrow> (events2 @ events3, st2, exc3)))))))"

text \<open>\<^verbatim>\<open>get_document_by_id\<close> (lines 228-233).\<close>

definition get_document_by_id :: "state \<Rightarrow> string \<Rightarrow> exc + document option" where
  "get_document_by_id st doc_id' =
     (case documents_file st of
        None \<Rightarrow> Inl FileNotFoundError
      | Some docs \<Rightarrow> Inr (find (\<lambda>doc. d_id doc = doc_id') docs))"


section \<open>Answering a query\<close>

text \<open>
  The system prompt of lines 68-93. Its only character above code 255 is the arrow U+2192
  of lines 85-88, four times; the characters of this theory end at 255, so the arrow
  stands as one character of its own, the substitute character, and the text keeps its
  length of 1595 characters.
\<close>

definition rightwards_arrow :: char where
  "rightwards_arrow = CHR 0x1A"

definition SYSTEM_PROMPT_TEMPLATE :: string where
  "SYSTEM_PROMPT_TEMPLATE =
     ''You are a helpful and knowledgeable document assistant. Your task is to answer questions based on the context provided below.\<newline>'' @
     ''\<newline>'' @
     ''CRITICAL INSTRUCTIONS:\<newline>'' @
     ''1. READ THE ENTIRE CONTEXT CAREFULLY before answering\<newline>'' @
     ''2. Look for relevant information in ALL parts of the context (text, tables, and images)\<newline>'' @
     ''3. If information is present in ANY form (direct statement, table, list, or implied), USE IT\<newline>'' @
     ''4. Synthesize information from multiple sections if needed\<newline>'' @
     ''5. Be thorough - check the entire context before saying information is not available\<newline>'' @
     ''\<newline>'' @
     ''FORMATTING RULES FOR CLEAN OUTPUT:\<newline>'' @
     ''1. Write in clear, natural language\<newline>'' @
     ''2. Use simple paragraphs with blank lines between them\<newline>'' @
     ''3. For lists with multiple items, format each on a new line starting with '* '\<newline>'' @
     ''4. When presenting scores or metrics, use format: '* **Score Value** on Dataset' (e.g., '* **28.4 BLEU** on WMT 2014 English-to-German')\<newline>'' @
     ''5. ALWAYS cite sources: add [Page X] after each claim or list item\<newline>'' @
     ''6. Keep paragraphs concise - 2-4 sentences max per paragraph\<newline>'' @
     ''7. Use clear section breaks (blank lines) between different topics\<newline>'' @
     ''\<newline>'' @
     ''RESPONSE LENGTH GUIDELINES:\<newline>'' @
     ''- Simple questions (what, who, when) '' @ [rightwards_arrow] @ '' 2-3 sentences\<newline>'' @
     ''- 'Explain' or 'describe' '' @ [rightwards_arrow] @ '' One detailed paragraph\<newline>'' @
     ''- 'In detail', 'comprehensive', 'thorough' '' @ [rightwards_arrow] @ '' Multiple paragraphs with clear structure\<newline>'' @
     ''- List questions '' @ [rightwards_arrow] @ '' Complete list with '* ' prefix for each item\<newline>'' @
     ''\<newline>'' @
     ''ONLY say 'I cannot find this information in the provided context' if you have:\<newline>'' @
     ''- Searched the ENTIRE context thoroughly\<newline>'' @
     ''- Checked all text sections, tables, and image descriptions\<newline>'' @
     ''- Confirmed the information is genuinely not present in any form''"

text \<open>\<^verbatim>\<open>sep.join(xs)\<close>.\<close>

fun join :: "string \<Rightarrow> string list \<Rightarrow> string" where
  "join sep [] = []"
| "join sep [x] = x"
| "join sep (x # y # ys) = x @ sep @ join sep (y # ys)"

text \<open>
  \<^verbatim>\<open>[doc.metadata.get("doc_id") for doc in summary_docs if "doc_id" in doc.metadata]\<close>, then
  \<^verbatim>\<open>docstore.mget\<close> and the values that are not \<^verbatim>\<open>None\<close> (lines 665-667 and 579-587).
\<close>

definition doc_ids_of :: "summary_doc list \<Rightarrow> string list" where
  "doc_ids_of summary_docs = List.map_filter (\<lambda>doc. md_doc_id (metadata doc)) summary_docs"

definition mget :: "(string \<rightharpoonup> processed_element) \<Rightarrow> string list \<Rightarrow> processed_element option list" where
  "mget ds keys = map ds keys"

definition fetch_originals :: "(string \<rightharpoonup> processed_element) \<Rightarrow> summary_doc list \<Rightarrow> processed_element list" where
  "fetch_originals ds summary_docs = List.map_filter (\<lambda>v. v) (mget ds (doc_ids_of summary_docs))"

subsection \<open>\<^verbatim>\<open>query_rag\<close> (lines 565-646)\<close>

text \<open>
  The result dictionary; \<open>element_types = None\<close> is the empty dictionary of the two early
  returns. The function is paired with the list of prompts sent to the generative model.
  It uses the module-level handles \<^verbatim>\<open>vectorstore\<close> and \<^verbatim>\<open>llm\<close>: a method call on \<^verbatim>\<open>None\<close>
  raises \<^verbatim>\<open>AttributeError\<close>.
\<close>

record rag_result =
  answer :: string
  chunks :: "summary_doc list"
  element_types :: "stats option"

definition rag_messages :: "string \<Rightarrow> processed_element list \<Rightarrow> message list" where
  "rag_messages query originals =
     (let image_originals = map original (filter (\<lambda>elem. type elem = Image) originals);
          table_originals = map original (filter (\<lambda>elem. type elem = Table) originals);
          text_originals = map original (filter (\<lambda>elem. type elem = Text) originals);
          context_parts =
            (if text_originals \<noteq> []
             then [''=== TEXT CONTEXT ===\<newline>'' @ join ''\<newline>\<newline>'' text_originals] else []) @
            (if table_originals \<noteq> []
             then [''=== TABLE CONTEXT ===\<newline>'' @ join ''\<newline>\<newline>'' table_originals] else []);
          context = join ''\<newline>\<newline>'' context_parts;
          human_text = ''Query: '' @ query @ ''\<newline>\<newline>Context:\<newline>'' @ context @ ''\<newline>\<newline>Answer:''
      in [SystemMessage (Str SYSTEM_PROMPT_TEMPLATE),
          (if image_originals \<noteq> []
           then HumanMessage (Parts (TextPart human_text # map ImageUrlPart (take 4 image_originals)))
           else HumanMessage (Str human_text))])"

definition query_rag ::
  "env \<Rightarrow> (string \<rightharpoonup> processed_element) \<Rightarrow> string \<Rightarrow> int \<Rightarrow> (exc + rag_result) \<times> message list list" where
  "query_rag env ds query k =
     (case vectorstore env of
        None \<Rightarrow> (Inl (AttributeError ''similarity_search''), [])
      | Some vs \<Rightarrow>
          (case similarity_search env vs query k of
             Inl e \<Rightarrow> (Inl e, [])
           | Inr summary_docs \<Rightarrow>
               if summary_docs = [] then
                 (Inr \<lparr>answer = ''No relevant documents found for your query.'', chunks = [],
                       element_types = None\<rparr>, [])
               else if doc_ids_of summary_docs = [] then
                 (Inr \<lparr>answer = ''No relevant documents found for your query.'', chunks = summary_docs,
                       element_types = None\<rparr>, [])
               else
                 (let originals = fetch_originals ds summary_docs;
                      element_counts =
                        \<lparr>images = length (filter (\<lambda>elem. type elem = Image) originals),
                         tables = length (filter (\<lambda>elem. type elem = Table) originals),
                         texts = length (filter (\<lambda>elem. type elem = Text) originals)\<rparr>;
                      messages = rag_messages query originals
                  in case llm env of
                       None \<Rightarrow> (Inl (AttributeError ''ainvoke''), [])
                     | Some model \<Rightarrow>
                         (case model messages of
                            Inl e \<Rightarrow> (Inl e, [messages])
                          | Inr response_content \<Rightarrow>
                              (Inr \<lparr>answer = response_content, chunks = summary_docs,
                                    element_types = Some element_counts\<rparr>, [messages])))))"

subsection \<open>\<^verbatim>\<open>answer_generator\<close> (lines 648-757)\<close>

text \<open>The events of the answer stream (each is sent as \<^verbatim>\<open>data: <json>\<close>).\<close>

datatype sse_event = ContextEvent "summary_doc list" | ChunkEvent string | EndEvent

text \<open>\<^verbatim>\<open>elem.get("page", "Unknown")\<close> as the f-string prints it.\<close>

definition page_label :: "processed_element \<Rightarrow> string" where
  "page_label elem =
     (case page elem of
        None \<Rightarrow> ''Unknown''
      | Some None \<Rightarrow> ''None''
      | Some (Some page_num) \<Rightarrow> str_int page_num)"

definition from_page :: "processed_element \<Rightarrow> string" where
  "from_page elem = ''[From Page '' @ page_label elem @ '']\<newline>'' @ original elem"

text \<open>Lines 669-695: the context text.\<close>

definition answer_context :: "processed_element list \<Rightarrow> string" where
  "answer_context originals =
     (let table_contents = map from_page (filter (\<lambda>elem. type elem = Table) originals);
          text_contents = map from_page (filter (\<lambda>elem. type elem = Text) originals);
          context_parts =
            (if text_contents \<noteq> []
             then [''=== DOCUMENT TEXT ==='', join ''\<newline>\<newline>'' text_contents] else []) @
            (if table_contents \<noteq> []
             then [''\<newline>\<newline>=== TABLES AND STRUCTURED DATA ==='', join ''\<newline>\<newline>'' table_contents] else [])
      in if context_parts \<noteq> [] then join ''\<newline>\<newline>'' context_parts else ''No context available.'')"

text \<open>Lines 702-709: the prompt.\<close>

definition answer_messages :: "string \<Rightarrow> processed_element list \<Rightarrow> message list" where
  "answer_messages query originals =
     (let image_originals = map original (filter (\<lambda>elem. type elem = Image) originals);
          human_text = ''Query: '' @ query @ ''\<newline>\<newline>Context:\<newline>'' @ answer_context originals
                       @ ''\<newline>\<newline>Answer:''
      in [SystemMessage (Str SYSTEM_PROMPT_TEMPLATE),
          (if image_originals \<noteq> []
           then HumanMessage (Parts (TextPart human_text # map ImageUrlPart (take 4 image_originals)))
           else HumanMessage (Str human_text))])"

text \<open>Lines 715-719: the loop over the stream; the events yielded and \<^verbatim>\<open>full_answer\<close>.\<close>

fun stream_loop :: "string list \<Rightarrow> string \<Rightarrow> sse_event list \<times> string" where
  "stream_loop [] full_answer = ([], full_answer)"
| "stream_loop (chunk_content # rest) full_answer =
     (if chunk_content \<noteq> [] then
        (case stream_loop rest (full_answer @ chunk_content) of
           (evs, full_answer') \<Rightarrow> (ChunkEvent chunk_content # evs, full_answer'))
      else stream_loop rest full_answer)"

text \<open>Lines 725-730: the message that stands in for an exception of the stream.\<close>

definition processing_issue_response :: string where
  "processing_issue_response =
     ''I apologize, but I encountered an issue processing your request. This may be due to content safety filters or an empty response from the AI. Please try rephrasing your question or asking something different.''"

definition safety_block_response :: string where
  "safety_block_response =
     ''I apologize, but this query was blocked by content safety filters. Please try rephrasing your question.''"

definition generic_error_response :: string where
  "generic_error_response =
     ''I encountered an error while processing your request. Please try again or rephrase your question.''"

definition no_answer_response :: string where
  "no_answer_response =
     ''I apologize, but I couldn't generate a response. Please try rephrasing your question or provide more context.''"

definition error_response :: "string \<Rightarrow> string" where
  "error_response error_msg =
     (if py_in ''list index out of range'' error_msg \<or> py_in ''IndexError'' error_msg
      then processing_issue_response
      else if py_in ''SAFETY'' (upper error_msg) \<or> py_in ''BLOCKED'' (upper error_msg)
      then safety_block_response
      else generic_error_response)"

text \<open>
  A run of the generator: the events yielded, the state left on disk, the exception that
  ended the generator (if one did) and the prompts sent to the streaming model.
\<close>

record answer_run =
  ar_events :: "sse_event list"
  ar_state :: state
  ar_raised :: "exc option"
  ar_prompts :: "message list list"

text \<open>Lines 712-757, from the prompt on: streaming, fallbacks, saving the turn, the end event.\<close>

definition stream_and_save ::
  "env \<Rightarrow> state \<Rightarrow> string \<Rightarrow> summary_doc list \<Rightarrow> message list \<Rightarrow> answer_run" where
  "stream_and_save env st chat_id chunks_for_json messages =
     (case astream env messages of
        (contents, stream_exc) \<Rightarrow>
          (case stream_loop contents [] of
             (chunk_events, streamed) \<Rightarrow>
               (let error_events =
                      (case stream_exc of None \<Rightarrow> []
                       | Some error_msg \<Rightarrow> [ChunkEvent (error_response error_msg)]);
                    full_answer =
                      (case stream_exc of None \<Rightarrow> streamed
                       | Some error_msg \<Rightarrow> error_response error_msg);
                    no_answer = (full_answer = [] \<or> strip full_answer = []);
                    fallback_events = (if no_answer then [ChunkEvent no_answer_response] else []);
                    full_answer' = (if no_answer then no_answer_response else full_answer);
                    bot_message = \<lparr>m_sender = ''bot'', m_text = full_answer', m_chunks = Some chunks_for_json\<rparr>;
                    yielded = ContextEvent chunks_for_json # chunk_events @ error_events @ fallback_events
                in case chat_history_file st of
                     None \<Rightarrow>
                       \<lparr>ar_events = yielded, ar_state = st, ar_raised = Some FileNotFoundError,
                        ar_prompts = [messages]\<rparr>
                   | Some chat_history \<Rightarrow>
                       (let chat_history' =
                              (case map_of chat_history chat_id of
                                 None \<Rightarrow> chat_history
                               | Some c \<Rightarrow>
                                   AList.update chat_id (c\<lparr>c_messages := c_messages c @ [bot_message]\<rparr>)
                                     chat_history)
                        in \<lparr>ar_events = yielded @ [EndEvent],
                            ar_state = st\<lparr>chat_history_file := Some chat_history'\<rparr>,
                            ar_raised = None, ar_prompts = [messages]\<rparr>))))"

definition answer_generator :: "env \<Rightarrow> state \<Rightarrow> string \<Rightarrow> string \<Rightarrow> int \<Rightarrow> answer_run" where
  "answer_generator env st chat_id query k =
     (case get_vectorstore env st of
        (Inl e, st0) \<Rightarrow> \<lparr>ar_events = [], ar_state = st0, ar_raised = Some e, ar_prompts = []\<rparr>
      | (Inr vectorstore_user, st0) \<Rightarrow>
          (case similarity_search env vectorstore_user query k of
             Inl e \<Rightarrow> \<lparr>ar_events = [], ar_state = st0, ar_raised = Some e, ar_prompts = []\<rparr>
           | Inr summary_docs \<Rightarrow>
               stream_and_save env st0 chat_id summary_docs
                 (answer_messages query (fetch_originals (docstore st0) summary_docs))))"


subsection \<open>\<^verbatim>\<open>query_chat_endpoint\<close> (lines 865-881)\<close>

text \<open>
  \<^verbatim>\<open>get_api_key_from_request\<close> (lines 177-182) on the value of the header \<^verbatim>\<open>X-API-Key\<close>
  (\<open>None\<close>: the request has no such header).
\<close>

definition get_api_key_from_request :: "string option \<Rightarrow> exc + string" where
  "get_api_key_from_request x_api_key =
     (case x_api_key of
        None \<Rightarrow> Inl (HTTPException 401 ''API key is required. Please provide X-API-Key header.'')
      | Some api_key \<Rightarrow>
          if api_key = []
          then Inl (HTTPException 401 ''API key is required. Please provide X-API-Key header.'')
          else Inr api_key)"

text \<open>
  The endpoint is the only caller of \<^verbatim>\<open>answer_generator\<close>. It reads the chat history, refuses
  an unknown chat, appends the user's message, writes the file and hands the generator to
  the streaming response: the result is the exception raised, or the run of the generator
  from the state the endpoint leaves.
\<close>

definition query_chat_endpoint ::
  "env \<Rightarrow> state \<Rightarrow> string \<Rightarrow> string option \<Rightarrow> string \<Rightarrow> int \<Rightarrow> exc + answer_run" where
  "query_chat_endpoint env st chat_id x_api_key query k =
     (case get_api_key_from_request x_api_key of
        Inl e \<Rightarrow> Inl e
      | Inr api_key \<Rightarrow>
          (case chat_history_file st of
             None \<Rightarrow> Inl FileNotFoundError
           | Some chat_history \<Rightarrow>
               (case map_of chat_history chat_id of
                  None \<Rightarrow> Inl (HTTPException 404 ''Chat session not found.'')
                | Some c \<Rightarrow>
                    (let user_message = \<lparr>m_sender = ''user'', m_text = query, m_chunks = None\<rparr>;
                         chat_history' =
                           AList.update chat_id (c\<lparr>c_messages := c_messages c @ [user_message]\<rparr>)
                             chat_history;
                         st1 = st\<lparr>chat_history_file := Some chat_history'\<rparr>
                     in Inr (answer_generator env st1 chat_id query k)))))"

section \<open>Deleting a conversation\<close>

text \<open>
  \<^verbatim>\<open>delete_chat_endpoint\<close> (lines 906-967). The loop of lines 935-939 removes the first
  record with the given id. The \<^verbatim>\<open>HTTPException\<close> of line 914 is raised inside the \<^verbatim>\<open>try\<close>
  and caught by \<^verbatim>\<open>except Exception\<close> at line 966, which raises status 500 with the text of
  the caught exception.
\<close>

fun pop_document :: "string \<Rightarrow> document list \<Rightarrow> document option \<times> document list" where
  "pop_document document_id [] = (None, [])"
| "pop_document document_id (doc # docs) =
     (if d_id doc = document_id then (Some doc, docs)
      else (case pop_document document_id docs of (found, rest) \<Rightarrow> (found, doc # rest)))"

record delete_response =
  r_message :: string
  r_chat_id :: string
  r_document_deleted :: bool

definition delete_chat_endpoint :: "state \<Rightarrow> string \<Rightarrow> (exc + delete_response) \<times> state" where
  "delete_chat_endpoint st chat_id =
     (case chat_history_file st of
        None \<Rightarrow> (Inl (HTTPException 404 ''Chat history not found.''), st)
      | Some chat_history \<Rightarrow>
          (case map_of chat_history chat_id of
             None \<Rightarrow> (Inl (HTTPException 500 ''Failed to delete chat: 404: Chat session not found.''), st)
           | Some c \<Rightarrow>
               (let document_id = c_document_id c;
                    chat_history' = AList.delete chat_id chat_history;
                    st1 = st\<lparr>chat_history_file := Some chat_history'\<rparr>;
                    chat_only =
                      (Inr \<lparr>r_message = ''Chat deleted successfully'', r_chat_id = chat_id,
                            r_document_deleted = False\<rparr>, st1)
                in if document_id \<noteq> []
                      \<and> \<not> list_ex (\<lambda>(other_id, other). c_document_id other = document_id) chat_history'
                   then
                     (case documents_file st1 of
                        None \<Rightarrow> (Inl (HTTPException 404 ''Chat history not found.''), st1)
                      | Some documents \<Rightarrow>
                          (case pop_document document_id documents of
                             (None, rest) \<Rightarrow> chat_only
                           | (Some doc_to_delete, documents') \<Rightarrow>
                               (let file_path = d_path doc_to_delete;
                                    st2 = (if file_path \<noteq> [] \<and> file_path \<in> uploads st1
                                           then st1\<lparr>uploads := uploads st1 - {file_path}\<rparr>
                                           else st1);
                                    st3 = st2\<lparr>documents_file := Some documents'\<rparr>
                                in (Inr \<lparr>r_message = ''Chat and associated document deleted successfully'',
                                         r_chat_id = chat_id, r_document_deleted = True\<rparr>, st3))))
                   else chat_only)))"


text \<open>
  "The summarization call raises": the handle is \<^verbatim>\<open>None\<close> (the attribute lookup raises), or the
  model raises on the prompt.
\<close>

definition call_raises :: "chat_model option \<Rightarrow> message \<Rightarrow> bool" where
  "call_raises model msg = (case model of None \<Rightarrow> True | Some m \<Rightarrow> isl (m [msg]))"


section \<open>Notions of the specification\<close>

text \<open>
  The element ids present in an index (the \<^verbatim>\<open>doc_id\<close> of the metadata of its documents), and
  the pairing of the two stores: every element id of the saved index has an entry in the
  content store.
\<close>

definition indexed_ids :: "summary_doc list \<Rightarrow> string set" where
  "indexed_ids idx = {i. \<exists>d \<in> set idx. md_doc_id (metadata d) = Some i}"

definition stores_consistent :: "state \<Rightarrow> bool" where
  "stores_consistent st =
     (\<forall>idx. faiss_index st = Some idx \<longrightarrow> indexed_ids idx \<subseteq> dom (docstore st))"

text \<open>An ingestion reaches the \<^verbatim>\<open>complete\<close> event.\<close>

definition reaches_complete :: "event list \<Rightarrow> bool" where
  "reaches_complete evs = list_ex (\<lambda>ev. case ev of Complete d c \<Rightarrow> True | _ \<Rightarrow> False) evs"

text \<open>The processed elements an ingestion of the file receives from the element generator.\<close>

definition ingested_elements :: "env \<Rightarrow> string \<Rightarrow> processed_element list" where
  "ingested_elements env fp = elements_of (fst (build_multimodal_elements_streaming env fp))"


text \<open>
  The error texts the code takes for a (possible) safety block are those its first two
  tests match (lines 725 and 727); the messages it answers them with both name the content
  safety filters.
\<close>

definition indicates_safety_block :: "string \<Rightarrow> bool" where
  "indicates_safety_block error_msg =
     (py_in ''list index out of range'' error_msg \<or> py_in ''IndexError'' error_msg \<or>
      py_in ''SAFETY'' (upper error_msg) \<or> py_in ''BLOCKED'' (upper error_msg))"

definition content_safety_message :: "string \<Rightarrow> bool" where
  "content_safety_message fragment = py_in ''content safety filters'' fragment"

text \<open>
  The fragments that follow the model's own in an answer stream: the stand-in for an
  exception, or the apology when the answer is blank.
\<close>

definition closing_fragments :: "string list \<Rightarrow> string option \<Rightarrow> string list" where
  "closing_fragments contents stream_exc =
     (case stream_exc of
        Some error_msg \<Rightarrow> [error_response error_msg]
      | None \<Rightarrow> if strip (concat contents) = [] then [no_answer_response] else [])"


section \<open>Example inputs\<close>

text \<open>
  Conversions that succeed: the RGB conversion keeps the first three samples, the PNG of
  every image has the same base64 text.
\<close>

definition example_imaging :: imaging where
  "example_imaging =
     \<lparr>to_rgb = (\<lambda>pix. Inr (pix\<lparr>pix_n := 3, pix_samples := take 3 (pix_samples pix)\<rparr>)),
      frombytes = (\<lambda>w h s. Inr \<lparr>img_width = w, img_height = h, img_data = s\<rparr>),
      png_base64 = (\<lambda>img. ''iVBORw0KGgo='')\<rparr>"

text \<open>A page whose only image is a one-pixel CMYK raster image (four components per pixel).\<close>

definition spacer_page :: pdf_page where
  "spacer_page =
     \<lparr>page_images = [Inr \<lparr>pix_n = 4, pix_width = 1, pix_height = 1, pix_samples = [0, 0, 0, 255]\<rparr>],
      page_drawings = []\<rparr>"


text \<open>
  The elements of a report: the text chunk of page 2 and the text chunk of page 3 (the
  text of a page is split on its own, lines 422-434), an image and a table.
\<close>

definition chunk_a :: element where
  "chunk_a =
     \<lparr>doc_id = ''id-a'', type = Text, original = ''Revenue grew 12% in Q3.'',
      source = ''uploads/report.docx'', page = Some (Some 2), image_index = None,
      text_content = [], html_content = [], chunk_index = Some 0\<rparr>"

definition chunk_b :: element where
  "chunk_b =
     \<lparr>doc_id = ''id-b'', type = Text, original = ''Costs fell 3% in Q3.'',
      source = ''uploads/report.docx'', page = Some (Some 3), image_index = None,
      text_content = [], html_content = [], chunk_index = Some 0\<rparr>"

definition picture :: element where
  "picture =
     \<lparr>doc_id = ''id-p'', type = Image, original = ''data:image/png;base64,iVBORw0KGgo='',
      source = ''uploads/report.docx'', page = Some (Some 1), image_index = None,
      text_content = [], html_content = [], chunk_index = None\<rparr>"

definition figures :: element where
  "figures =
     \<lparr>doc_id = ''id-t'', type = Table, original = ''<table><tr><td>Q3 12%</td></tr></table>'',
      source = ''uploads/report.docx'', page = None, image_index = None,
      text_content = ''Q3 12%'', html_content = ''<table><tr><td>Q3 12%</td></tr></table>'',
      chunk_index = None\<rparr>"

text \<open>
  A world in which the module-level handles are \<^verbatim>\<open>None\<close> (as the lifespan handler leaves
  them), the extraction finds the two text chunks, the tasks finish in submission order,
  the embedding service answers, the search finds nothing and the model streams nothing.
\<close>

definition quiet_env :: env where
  "quiet_env =
     \<lparr>llm = None, vectorstore = None,
      extraction = (\<lambda>fp. ([(''extracting'', ''Partitioning document with Unstructured...'')],
                           Inr ([], [], [chunk_a, chunk_b]))),
      completion_picks = [], embed_documents = (\<lambda>ts. None),
      similarity_search = (\<lambda>idx q k. Inr []), astream = (\<lambda>ms. ([], None)),
      chat_uuid = ''chat-2'', now_manifest = ''2025-01-02T10:00:00'',
      now_chat = ''2025-01-02T10:00:01''\<rparr>"

text \<open>A model whose every call raises, and a world with it and one element of each kind.\<close>

definition failing_model :: chat_model where
  "failing_model msgs = Inl (CollaboratorError ''timeout'')"

definition failing_env :: env where
  "failing_env =
     quiet_env\<lparr>llm := Some failing_model,
               extraction := (\<lambda>fp. ([], Inr ([picture], [figures], [chunk_a])))\<rparr>"


text \<open>
  A state after one ingestion of \<^verbatim>\<open>report.docx\<close>: the index holds the placeholder and the
  summary of one text chunk, the content store holds the chunk, the manifest holds the
  document, and one conversation refers to it.
\<close>

definition old_chunk :: processed_element where
  "old_chunk =
     with_summary
       \<lparr>doc_id = ''id-0'', type = Text, original = ''Revenue grew 12% in Q3.'',
        source = ''uploads/doc-1.docx'', page = Some (Some 1), image_index = None,
        text_content = [], html_content = [], chunk_index = Some 0\<rparr>
       ''This document/research paper discusses: Revenue grew 12% in Q3.''"

definition report_document :: document where
  "report_document =
     \<lparr>d_id = ''doc-1'', d_name = ''report.docx'', d_path = ''uploads/doc-1.docx'',
      d_uploadedAt = ''2025-01-01T09:00:00'',
      d_preview = ''Indexed with 1 texts, 0 images, 0 tables.'',
      d_stats = \<lparr>images = 0, tables = 0, texts = 1\<rparr>\<rparr>"

definition first_chat :: chat where
  "first_chat =
     \<lparr>c_id = ''chat-1'', c_document_id = ''doc-1'', c_created_at = ''2025-01-01T09:00:01'',
      c_title = ''report.docx'', c_messages = []\<rparr>"

definition stocked_state :: state where
  "stocked_state =
     \<lparr>faiss_index = Some [dummy_doc, summary_document old_chunk],
      docstore = [''id-0'' \<mapsto> old_chunk],
      documents_file = Some [report_document],
      chat_history_file = Some [(''chat-1'', first_chat)],
      uploads = {''uploads/doc-1.docx''}\<rparr>"


text \<open>
  Two ingestions into that state: the file \<^verbatim>\<open>report.docx\<close> uploaded again under the fresh id
  \<^verbatim>\<open>doc-2\<close>, and a file \<^verbatim>\<open>notes.docx\<close> the manifest does not know.
\<close>

definition reingestion :: "event list \<times> state \<times> exc option" where
  "reingestion = index_file_streaming quiet_env stocked_state ''uploads/doc-2.docx'' ''doc-2'' ''report.docx''"

definition first_ingestion :: "event list \<times> state \<times> exc option" where
  "first_ingestion = index_file_streaming quiet_env stocked_state ''uploads/doc-3.docx'' ''doc-3'' ''notes.docx''"


text \<open>
  Worlds for a query: the search finds the stored chunk and the model streams an answer;
  the same with a stream that ends in an exception (a safety block, a lost connection),
  and with a stream without content; and a world whose search raises.
\<close>

definition revenue_query :: string where
  "revenue_query = ''What happened to revenue in Q3?''"

definition streaming_env :: env where
  "streaming_env =
     quiet_env\<lparr>similarity_search := (\<lambda>idx q k. Inr [summary_document old_chunk]),
               astream := (\<lambda>ms. ([''Revenue grew '', [], ''12% in Q3 [Page 1].''], None))\<rparr>"

definition blocked_env :: env where
  "blocked_env =
     streaming_env\<lparr>astream := (\<lambda>ms. ([''Revenue ''], Some ''finish_reason: SAFETY''))\<rparr>"

definition dropped_env :: env where
  "dropped_env =
     streaming_env\<lparr>astream := (\<lambda>ms. ([''Revenue grew ''], Some ''Connection reset by peer''))\<rparr>"

definition silent_env :: env where
  "silent_env = streaming_env\<lparr>astream := (\<lambda>ms. ([[], []], None))\<rparr>"


text \<open>
  The state after start-up with one uploaded file (the lifespan handler writes an empty
  manifest and an empty chat history; nothing is indexed), and the state the ingestion of
  a document without elements leaves from it: the index holds the placeholder alone and
  the content store is empty. A world for both: the extraction finds no element, the
  search refuses a number of results below one and returns otherwise that many documents
  of the index (all of a shorter one), and the model streams one sentence.
\<close>

definition startup_state :: state where
  "startup_state =
     \<lparr>faiss_index = None,
      docstore = Map.empty,
      documents_file = Some [],
      chat_history_file = Some [],
      uploads = {''uploads/doc-1.docx''}\<rparr>"

definition blank_document :: document where
  "blank_document =
     \<lparr>d_id = ''doc-1'', d_name = ''blank.docx'', d_path = ''uploads/doc-1.docx'',
      d_uploadedAt = ''2025-01-01T09:00:00'',
      d_preview = ''Indexed with 0 texts, 0 images, 0 tables.'',
      d_stats = \<lparr>images = 0, tables = 0, texts = 0\<rparr>\<rparr>"

definition blank_chat :: chat where
  "blank_chat =
     \<lparr>c_id = ''chat-1'', c_document_id = ''doc-1'', c_created_at = ''2025-01-01T09:00:01'',
      c_title = ''blank.docx'', c_messages = []\<rparr>"

definition placeholder_state :: state where
  "placeholder_state =
     \<lparr>faiss_index = Some [dummy_doc],
      docstore = Map.empty,
      documents_file = Some [blank_document],
      chat_history_file = Some [(''chat-1'', blank_chat)],
      uploads = {''uploads/doc-1.docx''}\<rparr>"

definition faiss_env :: env where
  "faiss_env =
     quiet_env\<lparr>extraction := (\<lambda>fp. ([(''extracting'', ''Partitioning document with Unstructured...''),
                                     (''extracting'', ''Found 0 images.''),
                                     (''extracting'', ''Found 0 tables.'')],
                                    Inr ([], [], []))),
               similarity_search :=
                 (\<lambda>idx q k. if k \<le> 0 then Inl (CollaboratorError ''AssertionError'')
                            else Inr (take (nat k) idx)),
               astream := (\<lambda>ms. ([''I cannot find this information in the provided context.''], None)),
               chat_uuid := ''chat-1'', now_manifest := ''2025-01-01T09:00:00'',
               now_chat := ''2025-01-01T09:00:01''\<rparr>"


section \<open>Image extraction: what survives\<close>

lemma startswith_append: "startswith (p @ s) p"
  by (induction p) auto

lemma data_uri_prefix: "startswith (pil_to_data_uri im img) ''data:image/png;base64,''"
  unfolding pil_to_data_uri_def by (rule startswith_append)

lemma raster_image_cases:
  "raster_image im r = [] \<or> (\<exists>img. raster_image im r = [pil_to_data_uri im img])"
  by (auto simp: raster_image_def split: sum.splits)

lemma vector_drawing_cases:
  "vector_drawing im d = [] \<or> (\<exists>img. vector_drawing im d = [pil_to_data_uri im img])"
  by (auto simp: vector_drawing_def split: sum.splits)

lemma raster_image_uri_is_png:
  "u \<in> set (raster_image im r) \<Longrightarrow> startswith u ''data:image/png;base64,''"
  using raster_image_cases [of im r] data_uri_prefix by auto

lemma vector_drawing_uri_is_png:
  "u \<in> set (vector_drawing im d) \<Longrightarrow> startswith u ''data:image/png;base64,''"
  using vector_drawing_cases [of im d] data_uri_prefix by auto

lemma page_image_uri_is_png:
  "u \<in> set (page_image_uris im p) \<Longrightarrow> startswith u ''data:image/png;base64,''"
  by (auto simp: page_image_uris_def dest: raster_image_uri_is_png vector_drawing_uri_is_png)

text \<open>Every image that leaves the extractor is a PNG data URI.\<close>

lemma pdf_page_images_png:
  "(pno', uris) \<in> set (pdf_pages_from im pno doc) \<Longrightarrow> u \<in> set uris \<Longrightarrow>
   startswith u ''data:image/png;base64,''"
  by (induction im pno doc rule: pdf_pages_from.induct)
     (auto simp: Let_def split: if_splits dest: page_image_uri_is_png)

text \<open>A drawing below 100 in width or height is discarded, and so is a small raster image of fewer than four components.\<close>

lemma small_drawing_discarded:
  "rect_width d < 100 \<or> rect_height d < 100 \<Longrightarrow> vector_drawing im d = []"
  by (simp add: vector_drawing_def)

lemma small_rgb_image_discarded:
  "pix_n pix < 4 \<Longrightarrow> pix_width pix < 100 \<or> pix_height pix < 100 \<Longrightarrow> raster_image im (Inr pix) = []"
  by (simp add: raster_image_def)

text \<open>
  Claim C8. The claim: extraction discards every raster image and every drawing whose
  width or height is below 100 px, and every surviving image is a PNG data URI. The
  comment at line 275 says the same of raster images (skip small images), but the test
  at line 276 skips a small image only when it has fewer than four components per pixel.
  A raster image of one pixel with four components (CMYK) is converted to RGB and kept:
  the extractor returns it for page 1.
\<close>

theorem small_cmyk_image_survives:
  "pdf_page_images example_imaging [spacer_page] = [(1, [''data:image/png;base64,iVBORw0KGgo=''])]"
  by (simp add: pdf_page_images_def page_image_uris_def raster_image_def spacer_page_def
      example_imaging_def pil_to_data_uri_def)

section \<open>Summarization\<close>

lemma elements_of_append: "elements_of (xs @ ys) = elements_of xs @ elements_of ys"
  by (induction xs rule: elements_of.induct) auto

lemma elements_of_Element: "elements_of (map Element xs) = xs"
  by (induction xs) auto

lemma elements_of_statuses: "elements_of (map (\<lambda>(step, msg). Status step msg) xs) = []"
  by (induction xs) auto

lemma elements_of_summarized: "elements_of (map (summarized_status n) xs) = []"
  by (induction xs) (auto simp: summarized_status_def)

lemma truncate_with_summary: "element.truncate (with_summary e s) = e"
  by (simp add: with_summary_def element.truncate_def element.extend_def)

lemma truncate_assign_summaries: "map element.truncate (assign_summaries ss i es) = es"
  by (induction es arbitrary: i) (auto simp: truncate_with_summary)

text \<open>The harvest has one result per task, so \<^verbatim>\<open>summaries[summary_idx]\<close> is always in range.\<close>

lemma length_as_completed: "length (as_completed picks ts) = length ts"
  by (induction picks ts rule: as_completed.induct) (auto simp: Let_def)

text \<open>
  Whatever the model does, the generator ends without an exception once the extraction
  has succeeded, and it yields every extracted element, in order, with a summary.
\<close>

lemma build_yields_every_element:
  "extraction env fp = (ups, Inr (imgs, tbls, txts)) \<Longrightarrow>
   snd (build_multimodal_elements_streaming env fp) = None \<and>
   map element.truncate (elements_of (fst (build_multimodal_elements_streaming env fp)))
     = imgs @ tbls @ txts"
  by (simp add: build_multimodal_elements_streaming_def Let_def elements_of_append
      elements_of_Element elements_of_statuses elements_of_summarized truncate_assign_summaries)

text \<open>
  When the tasks finish in submission order, every element receives the summary of its
  own task.
\<close>

lemma as_completed_no_picks: "as_completed [] ts = ts"
  by (cases ts) auto

lemma assign_summaries_own:
  "assign_summaries (pre @ map f elems @ post) (length pre) elems = map (\<lambda>e. with_summary e (f e)) elems"
proof (induction elems arbitrary: pre)
  case Nil
  then show ?case by simp
next
  case (Cons e elems)
  from Cons.IH [of "pre @ [f e]"] show ?case
    by (simp add: nth_append)
qed

lemma summaries_in_submission_order:
  assumes p: "completion_picks env = []"
      and x: "extraction env fp = (ups, Inr (imgs, tbls, txts))"
  shows "elements_of (fst (build_multimodal_elements_streaming env fp)) =
           map (\<lambda>e. with_summary e (summarize_image_async (llm env) (original e))) imgs @
           map (\<lambda>e. with_summary e (summarize_table_async (llm env) (html_content e) (text_content e))) tbls @
           map (\<lambda>e. with_summary e (summarize_text_async (original e) (page_of e) (chunk_index_of e))) txts"
proof -
  let ?fi = "\<lambda>e. summarize_image_async (llm env) (original e)"
  let ?ft = "\<lambda>e. summarize_table_async (llm env) (html_content e) (text_content e)"
  let ?fx = "\<lambda>e. summarize_text_async (original e) (page_of e) (chunk_index_of e)"
  let ?all = "map ?fi imgs @ map ?ft tbls @ map ?fx txts"
  have a: "assign_summaries ?all 0 imgs = map (\<lambda>e. with_summary e (?fi e)) imgs"
    using assign_summaries_own [of "[]" ?fi imgs "map ?ft tbls @ map ?fx txts"] by simp
  have b: "assign_summaries ?all (length imgs) tbls = map (\<lambda>e. with_summary e (?ft e)) tbls"
    using assign_summaries_own [of "map ?fi imgs" ?ft tbls "map ?fx txts"] by simp
  have c: "assign_summaries ?all (length imgs + length tbls) txts = map (\<lambda>e. with_summary e (?fx e)) txts"
    using assign_summaries_own [of "map ?fi imgs @ map ?ft tbls" ?fx txts "[]"] by simp
  have "elements_of (fst (build_multimodal_elements_streaming env fp)) =
          assign_summaries ?all 0 imgs @ assign_summaries ?all (length imgs) tbls @
          assign_summaries ?all (length imgs + length tbls) txts"
    using p x
    by (simp add: build_multimodal_elements_streaming_def Let_def all_tasks_def as_completed_no_picks
        elements_of_append elements_of_Element elements_of_statuses elements_of_summarized)
  then show ?thesis
    by (simp only: a b c)
qed

text \<open>
  Claim C1. The claim: for every completion order, each element carries the summary
  computed from its own content. The code appends the summaries in completion order
  (lines 450-452) and assigns them by position in submission order (lines 459-472; the
  comment at line 449 speaks of gathering, which would keep submission order). For a
  document with text on pages 2 and 3, one chunk each, when the task of the chunk of page
  3 finishes first, each chunk receives the other's summary.
\<close>

theorem summaries_assigned_in_completion_order:
  "elements_of (fst (build_multimodal_elements_streaming
      (quiet_env\<lparr>completion_picks := [1]\<rparr>) ''uploads/report.docx'')) =
   [with_summary chunk_a ''Costs fell 3% in Q3.'', with_summary chunk_b ''Revenue grew 12% in Q3.'']"
  by (simp add: build_multimodal_elements_streaming_def quiet_env_def all_tasks_def
      summarize_text_async_def page_of_def chunk_index_of_def chunk_a_def chunk_b_def
      summarized_status_def Let_def)

text \<open>
  Claim C7. When the summarization call of an image raises, \<^verbatim>\<open>summarize_image_async\<close>
  returns the fixed marker; when the call of a table raises, \<^verbatim>\<open>summarize_table_async\<close>
  returns the table's text cut to 500 characters behind the fixed prefix
  \<^verbatim>\<open>Table content: \<close>. Neither raises. So, whatever the model does, the summarization of a
  document whose extraction succeeded ends without an exception and hands every
  element on to indexing.
\<close>

theorem summarization_failure_falls_back:
  "(call_raises model (image_message image_b64) \<longrightarrow>
      summarize_image_async model image_b64 = ''Image content could not be analyzed.'') \<and>
   (call_raises model (table_message table_html table_text) \<longrightarrow>
      summarize_table_async model table_html table_text = ''Table content: '' @ take 500 table_text) \<and>
   (extraction env fp = (ups, Inr (imgs, tbls, txts)) \<longrightarrow>
      snd (build_multimodal_elements_streaming env fp) = None \<and>
      map element.truncate (elements_of (fst (build_multimodal_elements_streaming env fp)))
        = imgs @ tbls @ txts)"
  using build_yields_every_element [of env fp ups imgs tbls txts]
  by (auto simp: call_raises_def summarize_image_async_def summarize_table_async_def isl_def
      split: option.splits sum.splits)

theorem summarization_failure_falls_back_witness:
  "summarize_image_async (Some failing_model) (original picture)
     = ''Image content could not be analyzed.'' \<and>
   summarize_table_async (Some failing_model) (html_content figures) (text_content figures)
     = ''Table content: Q3 12%'' \<and>
   snd (build_multimodal_elements_streaming failing_env ''uploads/report.docx'') = None \<and>
   map element.truncate
     (elements_of (fst (build_multimodal_elements_streaming failing_env ''uploads/report.docx'')))
     = [picture, figures, chunk_a]"
  using summarization_failure_falls_back [of "Some failing_model" "original picture"
      "html_content figures" "text_content figures"
      failing_env "''uploads/report.docx''" "[]" "[picture]" "[figures]" "[chunk_a]"]
  by (simp add: call_raises_def failing_model_def failing_env_def quiet_env_def figures_def)


section \<open>Ingestion: the two stores, the manifest and the conversation\<close>

lemma indexed_ids_append: "indexed_ids (xs @ ys) = indexed_ids xs \<union> indexed_ids ys"
  by (auto simp: indexed_ids_def)

lemma indexed_ids_dummy: "indexed_ids [dummy_doc] = {}"
  by (simp add: indexed_ids_def dummy_doc_def)

lemma indexed_ids_elements:
  "indexed_ids (map summary_document elems) = doc_id ` set elems"
  by (auto simp: indexed_ids_def element_metadata_def summary_document_def)

lemma index_elements_step:
  "index_elements env n t (elem # elems) vs ds = (evs, r) \<Longrightarrow> snd (snd r) = None \<Longrightarrow>
   \<exists>evs'. index_elements env (n + 1) t elems (vs @ [summary_document elem]) (ds(doc_id elem \<mapsto> elem)) = (evs', r)
      \<and> evs = indexing_status elem (n + 1) t # evs'"
  by (auto simp: Let_def add_documents_def split: sum.splits prod.splits option.splits)

lemma index_elements_statuses:
  "index_elements env n t elems vs ds = (evs, r) \<Longrightarrow> \<not> reaches_complete evs"
proof (induction elems arbitrary: n vs ds evs r)
  case Nil
  then show ?case by (simp add: reaches_complete_def)
next
  case (Cons elem elems)
  show ?case
  proof (cases "add_documents env vs [summary_document elem]")
    case (Inl e)
    with Cons.prems show ?thesis
      by (auto simp: Let_def reaches_complete_def indexing_status_def)
  next
    case (Inr vs')
    obtain evs' r' where rec: "index_elements env (n + 1) t elems vs' (ds(doc_id elem \<mapsto> elem)) = (evs', r')"
      by (cases "index_elements env (n + 1) t elems vs' (ds(doc_id elem \<mapsto> elem))") auto
    from Cons.prems Inr rec have "evs = indexing_status elem (n + 1) t # evs'"
      by (simp add: Let_def)
    moreover from Cons.IH [OF rec] have "\<not> reaches_complete evs'" .
    ultimately show ?thesis
      by (simp add: reaches_complete_def indexing_status_def)
  qed
qed

lemma index_elements_success:
  "index_elements env n t elems vs ds = (evs, vs', ds', None) \<Longrightarrow>
   vs' = vs @ map summary_document elems \<and> dom ds' = dom ds \<union> doc_id ` set elems \<and>
   (\<forall>i. i \<notin> doc_id ` set elems \<longrightarrow> ds' i = ds i)"
proof (induction elems arbitrary: n vs ds evs)
  case Nil
  then show ?case by simp
next
  case (Cons elem elems)
  from index_elements_step [OF Cons.prems] obtain evs' where
    "index_elements env (n + 1) t elems (vs @ [summary_document elem]) (ds(doc_id elem \<mapsto> elem)) = (evs', vs', ds', None)"
    by auto
  from Cons.IH [OF this] show ?case by auto
qed

lemma get_vectorstore_success:
  "get_vectorstore env st = (Inr vs0, st0) \<Longrightarrow>
   docstore st0 = docstore st \<and> documents_file st0 = documents_file st \<and>
   chat_history_file st0 = chat_history_file st \<and> uploads st0 = uploads st \<and>
   faiss_index st0 = Some vs0 \<and>
   (case faiss_index st of Some idx \<Rightarrow> vs0 = idx | None \<Rightarrow> vs0 = [dummy_doc])"
  by (auto simp: get_vectorstore_def from_documents_def split: option.splits sum.splits)

lemma get_vectorstore_failure:
  "get_vectorstore env st = (Inl e, st0) \<Longrightarrow> st0 = st"
  by (auto simp: get_vectorstore_def from_documents_def split: option.splits sum.splits)

lemma build_no_complete: "\<not> reaches_complete (fst (build_multimodal_elements_streaming env fp))"
  by (auto simp: build_multimodal_elements_streaming_def reaches_complete_def Let_def list_ex_iff
      summarized_status_def split: prod.splits sum.splits)

lemma reaches_complete_append: "reaches_complete (xs @ ys) = (reaches_complete xs \<or> reaches_complete ys)"
  by (simp add: reaches_complete_def)

lemma reaches_complete_filter: "reaches_complete (filter P xs) \<Longrightarrow> reaches_complete xs"
  by (auto simp: reaches_complete_def list_ex_iff)

lemma save_and_register_complete:
  "save_and_register env st fp did fn vs s = (evs, st', raised) \<Longrightarrow> reaches_complete evs \<Longrightarrow>
   \<exists>h. chat_history_file st = Some h \<and> raised = None \<and>
     st' = st\<lparr>faiss_index := Some vs,
              documents_file := Some (fst (update_manifest env fp did fn s (read_documents st))),
              chat_history_file := Some (AList.update (chat_uuid env)
                 (new_chat_record env did fn) h)\<rparr> \<and>
     evs = [Status ''saving'' ''Saving vector index to disk...'', Status ''manifest'' ''Updating document manifest...'',
            Complete (snd (update_manifest env fp did fn s (read_documents st)))
              (new_chat_record env did fn)]"
  by (auto simp: save_and_register_def Let_def reaches_complete_def read_documents_def
      split: prod.splits option.splits)


lemma set_elements_by_kind: "set (elements_by_kind elems) = set elems"
proof -
  have "\<And>elem. type elem = Image \<or> type elem = Table \<or> type elem = Text"
    by (metis kind.exhaust)
  then show ?thesis by (auto simp: elements_by_kind_def)
qed

lemma index_file_streaming_complete:
  assumes run: "index_file_streaming env st fp did fn = (evs, st', raised)"
      and c: "reaches_complete evs"
  shows "\<exists>vs0 st0 ievs ds h.
     get_vectorstore env st = (Inr vs0, st0) \<and>
     index_elements env 0 (length (elements_by_kind (ingested_elements env fp)))
        (elements_by_kind (ingested_elements env fp)) vs0 (docstore st0)
       = (ievs, vs0 @ map summary_document (elements_by_kind (ingested_elements env fp)), ds, None) \<and>
     chat_history_file st = Some h \<and> raised = None \<and>
     st' = st0\<lparr>docstore := ds,
               faiss_index := Some (vs0 @ map summary_document (elements_by_kind (ingested_elements env fp))),
               documents_file := Some (fst (update_manifest env fp did fn
                   (count_stats (ingested_elements env fp)) (read_documents st))),
               chat_history_file := Some (AList.update (chat_uuid env) (new_chat_record env did fn) h)\<rparr> \<and>
     last evs = Complete (snd (update_manifest env fp did fn
                   (count_stats (ingested_elements env fp)) (read_documents st))) (new_chat_record env did fn)"
proof -
  obtain r0 st0 where gv: "get_vectorstore env st = (r0, st0)"
    by (cases "get_vectorstore env st") auto
  show ?thesis
  proof (cases r0)
    case (Inl e)
    with run gv have "evs = []"
      by (simp add: index_file_streaming_def)
    with c show ?thesis
      by (simp add: reaches_complete_def)
  next
    case (Inr vs0)
    note gvs = get_vectorstore_success [OF gv [unfolded Inr]]
    obtain generated gen_exc where b: "build_multimodal_elements_streaming env fp = (generated, gen_exc)"
      by (cases "build_multimodal_elements_streaming env fp") auto
    have elems: "elements_of generated = ingested_elements env fp"
      by (simp add: ingested_elements_def b)
    have nc1: "\<not> reaches_complete (Status ''extraction'' (''Processing file: '' @ fn) # filter (\<lambda>ev. \<not> is_element ev) generated)"
      using build_no_complete [of env fp] reaches_complete_filter [of "\<lambda>ev. \<not> is_element ev" generated]
      by (auto simp: b reaches_complete_def)
    show ?thesis
    proof (cases gen_exc)
      case (Some e)
      with run gv Inr b
      have "evs = Status ''extraction'' (''Processing file: '' @ fn) # filter (\<lambda>ev. \<not> is_element ev) generated"
        by (simp add: index_file_streaming_def Let_def)
      with c nc1 show ?thesis by simp
    next
      case None
      obtain ievs vs ds idx_exc where ie:
        "index_elements env 0 (length (elements_by_kind (ingested_elements env fp)))
           (elements_by_kind (ingested_elements env fp)) vs0 (docstore st0) = (ievs, vs, ds, idx_exc)"
        by (metis prod_cases4)
      have nc2: "\<not> reaches_complete ievs"
        using index_elements_statuses [OF ie] .
      show ?thesis
      proof (cases idx_exc)
        case (Some e)
        with run gv Inr b None ie elems
        have "evs = (Status ''extraction'' (''Processing file: '' @ fn) # filter (\<lambda>ev. \<not> is_element ev) generated)
                     @ [Status ''indexing'' ''Storing summaries and original documents...''] @ ievs"
          by (simp add: index_file_streaming_def Let_def)
        with c nc1 nc2 show ?thesis
          by (simp add: reaches_complete_def)
      next
        case inone: None
        have vs: "vs = vs0 @ map summary_document (elements_by_kind (ingested_elements env fp))"
          using index_elements_success [OF ie [unfolded inone]] by simp
        obtain evs3 st2 exc3 where sr:
          "save_and_register env (st0\<lparr>docstore := ds\<rparr>) fp did fn vs (count_stats (ingested_elements env fp)) = (evs3, st2, exc3)"
          by (metis prod_cases3)
        from run gv Inr b None ie inone sr elems
        have res: "evs = (Status ''extraction'' (''Processing file: '' @ fn) # filter (\<lambda>ev. \<not> is_element ev) generated)
                     @ [Status ''indexing'' ''Storing summaries and original documents...''] @ ievs @ evs3"
             "st' = st2" "raised = exc3"
          by (simp_all add: index_file_streaming_def Let_def)
        with c nc1 nc2 have c3: "reaches_complete evs3"
          by (simp add: reaches_complete_def)
        from save_and_register_complete [OF sr c3] gvs
        obtain h where h: "chat_history_file st = Some h" "exc3 = None"
          "st2 = st0\<lparr>docstore := ds, faiss_index := Some vs,
              documents_file := Some (fst (update_manifest env fp did fn (count_stats (ingested_elements env fp)) (read_documents st))),
              chat_history_file := Some (AList.update (chat_uuid env) (new_chat_record env did fn) h)\<rparr>"
          "evs3 = [Status ''saving'' ''Saving vector index to disk...'', Status ''manifest'' ''Updating document manifest...'',
            Complete (snd (update_manifest env fp did fn (count_stats (ingested_elements env fp)) (read_documents st))) (new_chat_record env did fn)]"
          by (auto simp: read_documents_def)
        show ?thesis
          using gv Inr ie inone vs res h by simp
      qed
    qed
  qed
qed


lemma index_file_streaming_docstore:
  assumes run: "index_file_streaming env st fp did fn = (evs, st', raised)"
      and c: "reaches_complete evs"
  shows "dom (docstore st') = dom (docstore st) \<union> doc_id ` set (ingested_elements env fp) \<and>
         (\<forall>i. i \<notin> doc_id ` set (ingested_elements env fp) \<longrightarrow> docstore st' i = docstore st i) \<and>
         (\<exists>vs0. faiss_index st' = Some (vs0 @ map summary_document (elements_by_kind (ingested_elements env fp))) \<and>
            (case faiss_index st of Some idx \<Rightarrow> vs0 = idx | None \<Rightarrow> vs0 = [dummy_doc]))"
proof -
  from index_file_streaming_complete [OF run c] obtain vs0 st0 ievs ds h where
    gv: "get_vectorstore env st = (Inr vs0, st0)" and
    ie: "index_elements env 0 (length (elements_by_kind (ingested_elements env fp)))
        (elements_by_kind (ingested_elements env fp)) vs0 (docstore st0)
       = (ievs, vs0 @ map summary_document (elements_by_kind (ingested_elements env fp)), ds, None)" and
    st': "st' = st0\<lparr>docstore := ds,
               faiss_index := Some (vs0 @ map summary_document (elements_by_kind (ingested_elements env fp))),
               documents_file := Some (fst (update_manifest env fp did fn
                   (count_stats (ingested_elements env fp)) (read_documents st))),
               chat_history_file := Some (AList.update (chat_uuid env) (new_chat_record env did fn) h)\<rparr>"
    by blast
  note gvs = get_vectorstore_success [OF gv]
  note ies = index_elements_success [OF ie]
  show ?thesis
    using gvs ies st' by (simp add: set_elements_by_kind)
qed

text \<open>
  Claim C2. When an ingestion reaches the \<^verbatim>\<open>complete\<close> event from a state whose stores are
  paired, then in the state it leaves: every element id present in the saved index has
  exactly one entry in the content store; every element of the ingestion has its id in
  the index and an entry in the content store; and every content store entry the
  ingestion wrote or changed has its id in the index. The placeholder document of a new
  index carries no element id. The pairing holds when there is no saved index
  (\<open>fresh_stores_consistent\<close>), and every ingestion, complete or not, every query and
  every deletion keeps it (\<open>index_file_streaming_preserves_consistency\<close>,
  \<open>answer_generator_preserves_consistency\<close>, \<open>delete_chat_endpoint_preserves_consistency\<close>).
\<close>

theorem complete_ingestion_pairs_stores:
  assumes run: "index_file_streaming env st fp did fn = (evs, st', raised)"
      and c: "reaches_complete evs"
      and inv: "stores_consistent st"
  shows "\<exists>idx. faiss_index st' = Some idx \<and>
           (\<forall>i \<in> indexed_ids idx. \<exists>!v. docstore st' i = Some v) \<and>
           (\<forall>elem \<in> set (ingested_elements env fp).
              doc_id elem \<in> indexed_ids idx \<and> docstore st' (doc_id elem) \<noteq> None) \<and>
           (\<forall>i. docstore st' i \<noteq> docstore st i \<longrightarrow> i \<in> indexed_ids idx)"
proof -
  let ?elems = "ingested_elements env fp"
  from index_file_streaming_docstore [OF run c] obtain vs0 where
    d: "dom (docstore st') = dom (docstore st) \<union> doc_id ` set ?elems" and
    u: "\<forall>i. i \<notin> doc_id ` set ?elems \<longrightarrow> docstore st' i = docstore st i" and
    f: "faiss_index st' = Some (vs0 @ map summary_document (elements_by_kind ?elems))" and
    v: "case faiss_index st of Some idx \<Rightarrow> vs0 = idx | None \<Rightarrow> vs0 = [dummy_doc]"
    by blast
  have old: "indexed_ids vs0 \<subseteq> dom (docstore st)"
    using v inv by (auto simp: stores_consistent_def indexed_ids_dummy split: option.splits)
  have ids: "indexed_ids (vs0 @ map summary_document (elements_by_kind ?elems))
               = indexed_ids vs0 \<union> doc_id ` set ?elems"
    by (simp add: indexed_ids_append indexed_ids_elements set_elements_by_kind)
  have sub: "indexed_ids (vs0 @ map summary_document (elements_by_kind ?elems)) \<subseteq> dom (docstore st')"
    using old d ids by auto
  show ?thesis
  proof (intro exI conjI)
    show "faiss_index st' = Some (vs0 @ map summary_document (elements_by_kind ?elems))" by (rule f)
    show "\<forall>i \<in> indexed_ids (vs0 @ map summary_document (elements_by_kind ?elems)). \<exists>!v. docstore st' i = Some v"
      using sub by auto
    show "\<forall>elem \<in> set ?elems. doc_id elem \<in> indexed_ids (vs0 @ map summary_document (elements_by_kind ?elems))
             \<and> docstore st' (doc_id elem) \<noteq> None"
      using ids d by auto
    show "\<forall>i. docstore st' i \<noteq> docstore st i \<longrightarrow> i \<in> indexed_ids (vs0 @ map summary_document (elements_by_kind ?elems))"
      using u ids by auto
  qed
qed

lemma existing_doc_index_None:
  "(existing_doc_index fn docs = None) = (fn \<notin> d_name ` set docs)"
  by (induction docs) auto

lemma existing_doc_index_Some:
  "existing_doc_index fn docs = Some i \<Longrightarrow>
   i < length docs \<and> d_name (docs ! i) = fn \<and> (\<forall>j < i. d_name (docs ! j) \<noteq> fn)"
proof (induction docs arbitrary: i)
  case Nil
  then show ?case by simp
next
  case (Cons d docs)
  show ?case
  proof (cases "d_name d = fn")
    case True
    with Cons.prems show ?thesis by simp
  next
    case False
    with Cons.prems obtain i' where i': "existing_doc_index fn docs = Some i'" "i = Suc i'"
      by auto
    from Cons.IH [OF i'(1)] False i'(2) show ?thesis
      by (auto simp: nth_Cons split: nat.splits)
  qed
qed

lemma index_file_streaming_manifest:
  assumes run: "index_file_streaming env st fp did fn = (evs, st', raised)"
      and c: "reaches_complete evs"
  shows "read_documents st' = fst (update_manifest env fp did fn (count_stats (ingested_elements env fp)) (read_documents st)) \<and>
         documents_file st' \<noteq> None \<and>
         (\<exists>h. chat_history_file st = Some h \<and>
              chat_history_file st' = Some (AList.update (chat_uuid env) (new_chat_record env did fn) h)) \<and>
         last evs = Complete (snd (update_manifest env fp did fn (count_stats (ingested_elements env fp)) (read_documents st)))
                      (new_chat_record env did fn)"
proof -
  from index_file_streaming_complete [OF run c] obtain vs0 st0 ds h where
    h: "chat_history_file st = Some h" and
    st': "st' = st0\<lparr>docstore := ds,
               faiss_index := Some (vs0 @ map summary_document (elements_by_kind (ingested_elements env fp))),
               documents_file := Some (fst (update_manifest env fp did fn
                   (count_stats (ingested_elements env fp)) (read_documents st))),
               chat_history_file := Some (AList.update (chat_uuid env) (new_chat_record env did fn) h)\<rparr>" and
    l: "last evs = Complete (snd (update_manifest env fp did fn
                   (count_stats (ingested_elements env fp)) (read_documents st))) (new_chat_record env did fn)"
    by blast
  show ?thesis using h st' l by (simp add: read_documents_def)
qed

text \<open>
  Claim C6. After an ingestion that reaches \<^verbatim>\<open>complete\<close>: if a record of the manifest has the
  file's display name, the manifest keeps its length and differs only at the first such
  record, whose upload time, statistics and preview are replaced; otherwise exactly one
  record, built from the upload, is appended.
\<close>

theorem manifest_upsert:
  assumes run: "index_file_streaming env st fp did fn = (evs, st', raised)"
      and c: "reaches_complete evs"
  shows "(fn \<in> d_name ` set (read_documents st) \<longrightarrow>
            length (read_documents st') = length (read_documents st) \<and>
            (\<exists>i < length (read_documents st).
               d_name (read_documents st ! i) = fn \<and>
               (\<forall>j < i. d_name (read_documents st ! j) \<noteq> fn) \<and>
               read_documents st' =
                 (read_documents st)[i := (read_documents st ! i)
                    \<lparr>d_uploadedAt := now_manifest env,
                     d_stats := count_stats (ingested_elements env fp),
                     d_preview := preview_text ''Re-indexed'' (count_stats (ingested_elements env fp))\<rparr>])) \<and>
         (fn \<notin> d_name ` set (read_documents st) \<longrightarrow>
            read_documents st' = read_documents st @
              [\<lparr>d_id = did, d_name = fn, d_path = fp, d_uploadedAt = now_manifest env,
                d_preview = preview_text ''Indexed'' (count_stats (ingested_elements env fp)),
                d_stats = count_stats (ingested_elements env fp)\<rparr>])"
proof -
  note m = index_file_streaming_manifest [OF run c]
  show ?thesis
  proof (cases "existing_doc_index fn (read_documents st)")
    case None
    then have "fn \<notin> d_name ` set (read_documents st)"
      by (simp add: existing_doc_index_None)
    with m None show ?thesis
      by (simp add: update_manifest_def Let_def)
  next
    case (Some i)
    from existing_doc_index_Some [OF Some] have i: "i < length (read_documents st)"
      "d_name (read_documents st ! i) = fn" "\<forall>j < i. d_name (read_documents st ! j) \<noteq> fn"
      by auto
    then have "fn \<in> d_name ` set (read_documents st)"
      by (metis imageI nth_mem)
    moreover from m Some have "read_documents st' =
                 (read_documents st)[i := (read_documents st ! i)
                    \<lparr>d_uploadedAt := now_manifest env,
                     d_stats := count_stats (ingested_elements env fp),
                     d_preview := preview_text ''Re-indexed'' (count_stats (ingested_elements env fp))\<rparr>]"
      by (simp add: update_manifest_def Let_def)
    ultimately show ?thesis using i by auto
  qed
qed

lemma index_elements_total:
  "\<forall>ts. embed_documents env ts = None \<Longrightarrow>
   \<exists>evs ds'. index_elements env n t elems vs ds = (evs, vs @ map summary_document elems, ds', None)"
proof (induction elems arbitrary: n vs ds)
  case Nil
  then show ?case by simp
next
  case (Cons elem elems)
  from Cons.IH [OF Cons.prems, of "n + 1" "vs @ [summary_document elem]" "ds(doc_id elem \<mapsto> elem)"]
  obtain evs ds' where
    "index_elements env (n + 1) t elems (vs @ [summary_document elem]) (ds(doc_id elem \<mapsto> elem))
       = (evs, (vs @ [summary_document elem]) @ map summary_document elems, ds', None)"
    by blast
  with Cons.prems show ?case
    by (simp add: Let_def add_documents_def)
qed

lemma ingestion_completes:
  assumes emb: "\<forall>ts. embed_documents env ts = None"
      and ext: "extraction env fp = (ups, Inr found)"
      and h: "chat_history_file st = Some h"
  shows "reaches_complete (fst (index_file_streaming env st fp did fn)) \<and>
         snd (snd (index_file_streaming env st fp did fn)) = None"
proof -
  have "\<exists>vs0 st0. get_vectorstore env st = (Inr vs0, st0)"
    using emb by (cases "faiss_index st") (simp_all add: get_vectorstore_def from_documents_def)
  then obtain vs0 st0 where gv: "get_vectorstore env st = (Inr vs0, st0)"
    by blast
  note gvs = get_vectorstore_success [OF gv]
  obtain imgs tbls txts where found: "found = (imgs, tbls, txts)"
    by (cases found) auto
  obtain generated where b: "build_multimodal_elements_streaming env fp = (generated, None)"
    using build_yields_every_element [OF ext [unfolded found]]
    by (cases "build_multimodal_elements_streaming env fp") auto
  obtain ievs ds where ie:
    "index_elements env 0 (length (elements_by_kind (elements_of generated)))
       (elements_by_kind (elements_of generated)) vs0 (docstore st0)
     = (ievs, vs0 @ map summary_document (elements_by_kind (elements_of generated)), ds, None)"
    using index_elements_total [OF emb] by blast
  have hs: "chat_history_file (st0\<lparr>docstore := ds\<rparr>) = Some h"
    using gvs h by simp
  have "\<exists>evs3 st3. save_and_register env (st0\<lparr>docstore := ds\<rparr>) fp did fn
       (vs0 @ map summary_document (elements_by_kind (elements_of generated)))
       (count_stats (elements_of generated)) = (evs3, st3, None) \<and> reaches_complete evs3"
    using hs
    by (cases "update_manifest env fp did fn (count_stats (elements_of generated))
          (read_documents (st0\<lparr>docstore := ds,
             faiss_index := Some (vs0 @ map summary_document (elements_by_kind (elements_of generated)))\<rparr>))")
       (simp add: save_and_register_def Let_def reaches_complete_def)
  then obtain evs3 st3 where sr:
    "save_and_register env (st0\<lparr>docstore := ds\<rparr>) fp did fn
       (vs0 @ map summary_document (elements_by_kind (elements_of generated)))
       (count_stats (elements_of generated)) = (evs3, st3, None)"
    "reaches_complete evs3"
    by blast
  show ?thesis
    using gv b ie sr
    by (simp add: index_file_streaming_def Let_def reaches_complete_def)
qed

lemma update_manifest_existing_ids:
  "fn \<in> d_name ` set docs \<Longrightarrow>
   map d_id (fst (update_manifest env fp did fn s docs)) = map d_id docs \<and>
   map d_path (fst (update_manifest env fp did fn s docs)) = map d_path docs"
proof -
  assume "fn \<in> d_name ` set docs"
  then obtain i where i: "existing_doc_index fn docs = Some i"
    using existing_doc_index_None [of fn docs] by (cases "existing_doc_index fn docs") auto
  from existing_doc_index_Some [OF i] have "i < length docs" by simp
  then show ?thesis
    using i by (simp add: update_manifest_def Let_def map_update list_update_same_conv)
qed

text \<open>
  Claim C9. Let an ingestion reach \<^verbatim>\<open>complete\<close> for a display name the manifest already has,
  under an upload id that no manifest record has (the id is drawn by \<^verbatim>\<open>uuid.uuid4()\<close> at
  line 814). Then the conversation stored and sent with the \<^verbatim>\<open>complete\<close> event has the upload
  id as its document id, the ids and paths of the manifest records are what they were,
  and no manifest record has the conversation's document id: \<^verbatim>\<open>get_document_by_id\<close> finds
  nothing.
\<close>

theorem reingestion_chat_links_unknown_document:
  assumes run: "index_file_streaming env st fp did fn = (evs, st', raised)"
      and c: "reaches_complete evs"
      and existing: "fn \<in> d_name ` set (read_documents st)"
      and fresh: "did \<notin> d_id ` set (read_documents st)"
  shows "(\<exists>h d. chat_history_file st' = Some h \<and>
             map_of h (chat_uuid env) = Some (new_chat_record env did fn) \<and>
             last evs = Complete d (new_chat_record env did fn)) \<and>
         c_document_id (new_chat_record env did fn) = did \<and>
         map d_id (read_documents st') = map d_id (read_documents st) \<and>
         map d_path (read_documents st') = map d_path (read_documents st) \<and>
         get_document_by_id st' did = Inr None"
proof -
  note m = index_file_streaming_manifest [OF run c]
  note u = update_manifest_existing_ids [OF existing, of env fp did "count_stats (ingested_elements env fp)"]
  from m u have ids: "map d_id (read_documents st') = map d_id (read_documents st)"
    and paths: "map d_path (read_documents st') = map d_path (read_documents st)"
    by simp_all
  have "d_id ` set (read_documents st') = d_id ` set (read_documents st)"
    using ids by (metis set_map)
  with fresh have "did \<notin> d_id ` set (read_documents st')" by simp
  then have "find (\<lambda>doc. d_id doc = did) (read_documents st') = None"
    by (auto simp: find_None_iff)
  with m have g: "get_document_by_id st' did = Inr None"
    by (auto simp: get_document_by_id_def read_documents_def split: option.splits)
  from m obtain h where "chat_history_file st' = Some (AList.update (chat_uuid env) (new_chat_record env did fn) h)"
    by blast
  then have "\<exists>h d. chat_history_file st' = Some h \<and>
             map_of h (chat_uuid env) = Some (new_chat_record env did fn) \<and>
             last evs = Complete d (new_chat_record env did fn)"
    using m by (simp add: update_conv')
  then show ?thesis
    using ids paths g by (simp add: new_chat_record_def)
qed

lemma quiet_env_completes:
  "reaches_complete (fst (index_file_streaming quiet_env stocked_state fp did fn))"
  using ingestion_completes [of quiet_env fp "[(''extracting'', ''Partitioning document with Unstructured...'')]"
      "([], [], [chunk_a, chunk_b])" stocked_state "[(''chat-1'', first_chat)]" did fn]
  by (simp add: quiet_env_def stocked_state_def)

lemma stocked_state_consistent: "stores_consistent stocked_state"
  by (simp add: stores_consistent_def stocked_state_def indexed_ids_def dummy_doc_def
      summary_document_def element_metadata_def old_chunk_def with_summary_def
      element.extend_def processed_element.fields_def)

theorem complete_ingestion_pairs_stores_witness:
  "stores_consistent stocked_state \<and> reaches_complete (fst reingestion) \<and>
   (\<exists>idx. faiss_index (fst (snd reingestion)) = Some idx \<and>
      (\<forall>i \<in> indexed_ids idx. \<exists>!v. docstore (fst (snd reingestion)) i = Some v) \<and>
      (\<forall>elem \<in> set (ingested_elements quiet_env ''uploads/doc-2.docx'').
         doc_id elem \<in> indexed_ids idx \<and> docstore (fst (snd reingestion)) (doc_id elem) \<noteq> None) \<and>
      (\<forall>i. docstore (fst (snd reingestion)) i \<noteq> docstore stocked_state i \<longrightarrow> i \<in> indexed_ids idx))"
proof -
  have run: "index_file_streaming quiet_env stocked_state ''uploads/doc-2.docx'' ''doc-2'' ''report.docx''
      = (fst reingestion, fst (snd reingestion), snd (snd reingestion))"
    by (simp add: reingestion_def)
  have c: "reaches_complete (fst reingestion)"
    unfolding reingestion_def by (rule quiet_env_completes)
  from complete_ingestion_pairs_stores [OF run c stocked_state_consistent] c stocked_state_consistent
  show ?thesis by blast
qed

theorem manifest_upsert_witness:
  "reaches_complete (fst reingestion) \<and>
   ''report.docx'' \<in> d_name ` set (read_documents stocked_state) \<and>
   length (read_documents (fst (snd reingestion))) = length (read_documents stocked_state) \<and>
   read_documents (fst (snd reingestion)) =
     [report_document
        \<lparr>d_uploadedAt := ''2025-01-02T10:00:00'',
         d_stats := count_stats (ingested_elements quiet_env ''uploads/doc-2.docx''),
         d_preview := preview_text ''Re-indexed'' (count_stats (ingested_elements quiet_env ''uploads/doc-2.docx''))\<rparr>] \<and>
   reaches_complete (fst first_ingestion) \<and>
   ''notes.docx'' \<notin> d_name ` set (read_documents stocked_state) \<and>
   read_documents (fst (snd first_ingestion)) =
     [report_document,
      \<lparr>d_id = ''doc-3'', d_name = ''notes.docx'', d_path = ''uploads/doc-3.docx'',
       d_uploadedAt = ''2025-01-02T10:00:00'',
       d_preview = preview_text ''Indexed'' (count_stats (ingested_elements quiet_env ''uploads/doc-3.docx'')),
       d_stats = count_stats (ingested_elements quiet_env ''uploads/doc-3.docx'')\<rparr>]"
proof -
  have run1: "index_file_streaming quiet_env stocked_state ''uploads/doc-2.docx'' ''doc-2'' ''report.docx''
      = (fst reingestion, fst (snd reingestion), snd (snd reingestion))"
    by (simp add: reingestion_def)
  have cmp1: "reaches_complete (fst reingestion)"
    unfolding reingestion_def by (rule quiet_env_completes)
  have run2: "index_file_streaming quiet_env stocked_state ''uploads/doc-3.docx'' ''doc-3'' ''notes.docx''
      = (fst first_ingestion, fst (snd first_ingestion), snd (snd first_ingestion))"
    by (simp add: first_ingestion_def)
  have cmp2: "reaches_complete (fst first_ingestion)"
    unfolding first_ingestion_def by (rule quiet_env_completes)
  have docs: "read_documents stocked_state = [report_document]"
    by (simp add: read_documents_def stocked_state_def)
  from manifest_upsert [OF run1 cmp1] manifest_upsert [OF run2 cmp2] cmp1 cmp2 show ?thesis
    by (simp add: docs report_document_def quiet_env_def)
qed

theorem reingestion_chat_links_unknown_document_witness:
  "reaches_complete (fst reingestion) \<and>
   ''report.docx'' \<in> d_name ` set (read_documents stocked_state) \<and>
   ''doc-2'' \<notin> d_id ` set (read_documents stocked_state) \<and>
   (\<exists>h d. chat_history_file (fst (snd reingestion)) = Some h \<and>
      map_of h ''chat-2'' = Some (new_chat_record quiet_env ''doc-2'' ''report.docx'') \<and>
      last (fst reingestion) = Complete d (new_chat_record quiet_env ''doc-2'' ''report.docx'')) \<and>
   c_document_id (new_chat_record quiet_env ''doc-2'' ''report.docx'') = ''doc-2'' \<and>
   map d_id (read_documents (fst (snd reingestion))) = [''doc-1''] \<and>
   map d_path (read_documents (fst (snd reingestion))) = [''uploads/doc-1.docx''] \<and>
   get_document_by_id (fst (snd reingestion)) ''doc-2'' = Inr None"
proof -
  have run: "index_file_streaming quiet_env stocked_state ''uploads/doc-2.docx'' ''doc-2'' ''report.docx''
      = (fst reingestion, fst (snd reingestion), snd (snd reingestion))"
    by (simp add: reingestion_def)
  have c: "reaches_complete (fst reingestion)"
    unfolding reingestion_def by (rule quiet_env_completes)
  have docs: "read_documents stocked_state = [report_document]"
    by (simp add: read_documents_def stocked_state_def)
  have e: "''report.docx'' \<in> d_name ` set (read_documents stocked_state)"
    by (simp add: docs report_document_def)
  have f: "''doc-2'' \<notin> d_id ` set (read_documents stocked_state)"
    by (simp add: docs report_document_def)
  have u: "chat_uuid quiet_env = ''chat-2''"
    by (simp add: quiet_env_def)
  from reingestion_chat_links_unknown_document [OF run c e f] c e f show ?thesis
    by (simp add: docs report_document_def u)
qed

lemma index_elements_dom:
  "index_elements env n t elems vs ds = (evs, vs', ds', r) \<Longrightarrow> dom ds \<subseteq> dom ds'"
proof (induction elems arbitrary: n vs ds evs)
  case Nil
  then show ?case by auto
next
  case (Cons elem elems)
  show ?case
  proof (cases "add_documents env vs [summary_document elem]")
    case (Inl e)
    with Cons.prems show ?thesis by (auto simp: Let_def)
  next
    case (Inr vs1)
    obtain evs1 where "index_elements env (n + 1) t elems vs1 (ds(doc_id elem \<mapsto> elem)) = (evs1, vs', ds', r)"
      using Cons.prems Inr by (auto simp: Let_def split: prod.splits)
    from Cons.IH [OF this] have "dom (ds(doc_id elem \<mapsto> elem)) \<subseteq> dom ds'" .
    moreover have "dom ds \<subseteq> dom (ds(doc_id elem \<mapsto> elem))"
      by (auto simp: dom_def)
    ultimately show ?thesis by (rule order_trans [rotated])
  qed
qed

lemma save_and_register_stores:
  "save_and_register env st fp did fn vs s = (evs, st', r) \<Longrightarrow>
   faiss_index st' = Some vs \<and> docstore st' = docstore st"
  by (auto simp: save_and_register_def Let_def split: prod.splits option.splits)

lemma index_file_streaming_preserves_consistency:
  assumes run: "index_file_streaming env st fp did fn = (evs, st', raised)"
      and inv: "stores_consistent st"
  shows "stores_consistent st'"
proof -
  obtain r0 st0 where gv: "get_vectorstore env st = (r0, st0)"
    by (cases "get_vectorstore env st") auto
  show ?thesis
  proof (cases r0)
    case (Inl e)
    with run gv inv get_vectorstore_failure [of env st e st0] show ?thesis
      by (simp add: index_file_streaming_def)
  next
    case (Inr vs0)
    note gvs = get_vectorstore_success [OF gv [unfolded Inr]]
    have old: "indexed_ids vs0 \<subseteq> dom (docstore st)"
      using gvs inv by (auto simp: stores_consistent_def indexed_ids_dummy split: option.splits)
    have inv0: "stores_consistent st0"
      using gvs old by (simp add: stores_consistent_def)
    obtain generated gen_exc where b: "build_multimodal_elements_streaming env fp = (generated, gen_exc)"
      by (cases "build_multimodal_elements_streaming env fp") auto
    show ?thesis
    proof (cases gen_exc)
      case (Some e)
      with run gv Inr b inv0 show ?thesis
        by (simp add: index_file_streaming_def Let_def)
    next
      case None
      obtain ievs vs ds idx_exc where ie:
        "index_elements env 0 (length (elements_by_kind (elements_of generated)))
           (elements_by_kind (elements_of generated)) vs0 (docstore st0) = (ievs, vs, ds, idx_exc)"
        by (metis prod_cases4)
      from index_elements_dom [OF ie] have grow: "dom (docstore st0) \<subseteq> dom ds" .
      show ?thesis
      proof (cases idx_exc)
        case (Some e)
        with run gv Inr b None ie have "st' = st0\<lparr>docstore := ds\<rparr>"
          by (simp add: index_file_streaming_def Let_def)
        with gvs old grow show ?thesis
          by (auto simp: stores_consistent_def)
      next
        case inone: None
        from index_elements_success [OF ie [unfolded inone]]
        have vs: "vs = vs0 @ map summary_document (elements_by_kind (elements_of generated))"
          and d: "dom ds = dom (docstore st0) \<union> doc_id ` set (elements_by_kind (elements_of generated))"
          by simp_all
        obtain evs3 st2 exc3 where sr:
          "save_and_register env (st0\<lparr>docstore := ds\<rparr>) fp did fn vs (count_stats (elements_of generated)) = (evs3, st2, exc3)"
          by (metis prod_cases3)
        from run gv Inr b None ie inone sr have "st' = st2"
          by (simp add: index_file_streaming_def Let_def)
        with save_and_register_stores [OF sr] have "faiss_index st' = Some vs" "docstore st' = ds"
          by simp_all
        moreover have "indexed_ids vs \<subseteq> dom ds"
          using vs d old gvs by (auto simp: indexed_ids_append indexed_ids_elements)
        ultimately show ?thesis
          by (simp add: stores_consistent_def)
      qed
    qed
  qed
qed

lemma fresh_stores_consistent: "faiss_index st = None \<Longrightarrow> stores_consistent st"
  by (simp add: stores_consistent_def)


section \<open>The answer stream and the deletion of a conversation\<close>

lemma stream_loop_eq:
  "stream_loop contents full_answer =
     (map ChunkEvent (filter (\<lambda>c. c \<noteq> []) contents), full_answer @ concat contents)"
  by (induction contents arbitrary: full_answer) auto

lemma all_dropWhile: "(\<forall>x \<in> set (dropWhile P s). P x) = (\<forall>x \<in> set s. P x)"
  by (induction s) auto

lemma strip_empty_iff: "(strip s = []) = (\<forall>c \<in> set s. isspace c)"
  by (simp add: strip_def all_dropWhile)

lemma isspace_I: "\<not> isspace CHR ''I''"
  by (simp add: isspace_def)

lemma responses_not_blank:
  "strip processing_issue_response \<noteq> []" "strip safety_block_response \<noteq> []"
  "strip generic_error_response \<noteq> []" "strip no_answer_response \<noteq> []"
  using isspace_I
  by (auto simp: strip_empty_iff processing_issue_response_def safety_block_response_def
      generic_error_response_def no_answer_response_def)

lemma error_response_not_blank: "error_response error_msg \<noteq> [] \<and> strip (error_response error_msg) \<noteq> []"
  using responses_not_blank by (auto simp: error_response_def strip_def)

lemma safety_messages:
  "content_safety_message processing_issue_response" "content_safety_message safety_block_response"
  "\<not> content_safety_message generic_error_response"
  by (simp_all add: content_safety_message_def processing_issue_response_def safety_block_response_def
      generic_error_response_def)


lemma strip_Nil: "strip [] = []"
  by (simp add: strip_def)

lemma stream_and_save_events:
  assumes a: "astream env messages = (contents, stream_exc)"
  shows "ar_prompts (stream_and_save env st chat_id docs messages) = [messages] \<and>
         (chat_history_file st \<noteq> None \<longrightarrow>
            ar_events (stream_and_save env st chat_id docs messages) =
              ContextEvent docs # map ChunkEvent (filter (\<lambda>c. c \<noteq> []) contents @ closing_fragments contents stream_exc)
                @ [EndEvent] \<and>
            ar_raised (stream_and_save env st chat_id docs messages) = None) \<and>
         (chat_history_file st = None \<longrightarrow>
            ar_events (stream_and_save env st chat_id docs messages) =
              ContextEvent docs # map ChunkEvent (filter (\<lambda>c. c \<noteq> []) contents @ closing_fragments contents stream_exc) \<and>
            ar_raised (stream_and_save env st chat_id docs messages) = Some FileNotFoundError)"
proof (cases stream_exc)
  case None
  show ?thesis
  proof (cases "strip (concat contents) = []")
    case True
    then have "concat contents = [] \<or> strip (concat contents) = []" by simp
    with a None True show ?thesis
      by (cases "chat_history_file st")
         (simp_all add: stream_and_save_def stream_loop_eq Let_def closing_fragments_def)
  next
    case False
    then have "\<not> (concat contents = [] \<or> strip (concat contents) = [])"
      by (metis strip_Nil)
    with a None False show ?thesis
      by (cases "chat_history_file st")
         (simp_all add: stream_and_save_def stream_loop_eq Let_def closing_fragments_def)
  qed
next
  case (Some error_msg)
  have "\<not> (error_response error_msg = [] \<or> strip (error_response error_msg) = [])"
    using error_response_not_blank [of error_msg] by simp
  with a Some show ?thesis
    by (cases "chat_history_file st")
       (simp_all add: stream_and_save_def stream_loop_eq Let_def closing_fragments_def)
qed

lemma answer_generator_retrieved:
  assumes gv: "get_vectorstore env st = (Inr idx, st0)"
      and s: "similarity_search env idx query k = Inr docs"
  shows "answer_generator env st chat_id query k =
           stream_and_save env st0 chat_id docs (answer_messages query (fetch_originals (docstore st) docs))"
  using gv s get_vectorstore_success [OF gv] by (simp add: answer_generator_def)


lemma answer_generator_events:
  assumes gv: "get_vectorstore env st = (Inr idx, st0)"
      and s: "similarity_search env idx query k = Inr docs"
      and a: "astream env (answer_messages query (fetch_originals (docstore st) docs)) = (contents, stream_exc)"
  shows "ar_prompts (answer_generator env st chat_id query k)
           = [answer_messages query (fetch_originals (docstore st) docs)] \<and>
         (chat_history_file st \<noteq> None \<longrightarrow>
            ar_events (answer_generator env st chat_id query k) =
              ContextEvent docs # map ChunkEvent (filter (\<lambda>c. c \<noteq> []) contents @ closing_fragments contents stream_exc)
                @ [EndEvent] \<and>
            ar_raised (answer_generator env st chat_id query k) = None) \<and>
         (chat_history_file st = None \<longrightarrow>
            ar_events (answer_generator env st chat_id query k) =
              ContextEvent docs # map ChunkEvent (filter (\<lambda>c. c \<noteq> []) contents @ closing_fragments contents stream_exc) \<and>
            ar_raised (answer_generator env st chat_id query k) = Some FileNotFoundError)"
  using stream_and_save_events [OF a, of st0 chat_id docs] answer_generator_retrieved [OF gv s, of chat_id]
    get_vectorstore_success [OF gv]
  by simp

lemma stocked_vectorstore:
  "get_vectorstore env stocked_state = (Inr [dummy_doc, summary_document old_chunk], stocked_state)"
  by (simp add: get_vectorstore_def stocked_state_def)

lemma get_vectorstore_frame:
  assumes "faiss_index st' = faiss_index st"
  shows "fst (get_vectorstore env st') = fst (get_vectorstore env st)"
  using assms by (simp add: get_vectorstore_def split: option.splits sum.splits)

lemma get_vectorstore_fields:
  "docstore (snd (get_vectorstore env st)) = docstore st \<and>
   chat_history_file (snd (get_vectorstore env st)) = chat_history_file st"
  by (simp add: get_vectorstore_def split: option.splits sum.splits)

lemma stream_and_save_frame:
  assumes "(chat_history_file st' = None) = (chat_history_file st = None)"
  shows "ar_events (stream_and_save env st' chat_id docs messages) = ar_events (stream_and_save env st chat_id docs messages) \<and>
         ar_prompts (stream_and_save env st' chat_id docs messages) = ar_prompts (stream_and_save env st chat_id docs messages) \<and>
         ar_raised (stream_and_save env st' chat_id docs messages) = ar_raised (stream_and_save env st chat_id docs messages)"
proof -
  obtain contents stream_exc where a: "astream env messages = (contents, stream_exc)"
    by (cases "astream env messages") auto
  from stream_and_save_events [OF a, of st' chat_id docs] stream_and_save_events [OF a, of st chat_id docs] assms
  show ?thesis by (cases "chat_history_file st = None") simp_all
qed

lemma answer_generator_frame:
  assumes f: "faiss_index st' = faiss_index st"
      and d: "docstore st' = docstore st"
      and h: "(chat_history_file st' = None) = (chat_history_file st = None)"
  shows "ar_events (answer_generator env st' chat_id query k) = ar_events (answer_generator env st chat_id query k) \<and>
         ar_prompts (answer_generator env st' chat_id query k) = ar_prompts (answer_generator env st chat_id query k) \<and>
         ar_raised (answer_generator env st' chat_id query k) = ar_raised (answer_generator env st chat_id query k)"
proof -
  obtain r0 st0 where gv: "get_vectorstore env st = (r0, st0)"
    by (cases "get_vectorstore env st") auto
  obtain r0' st0' where gv': "get_vectorstore env st' = (r0', st0')"
    by (cases "get_vectorstore env st'") auto
  have r: "r0' = r0"
    using get_vectorstore_frame [OF f, of env] gv gv' by simp
  have d0: "docstore st0' = docstore st0"
    and h0: "(chat_history_file st0' = None) = (chat_history_file st0 = None)"
    using get_vectorstore_fields [of env st] get_vectorstore_fields [of env st'] gv gv' d h by simp_all
  show ?thesis
  proof (cases r0)
    case (Inl e)
    with gv gv' r show ?thesis by (simp add: answer_generator_def)
  next
    case (Inr idx)
    show ?thesis
    proof (cases "similarity_search env idx query k")
      case (Inl e)
      with gv gv' r Inr show ?thesis by (simp add: answer_generator_def)
    next
      case inr: (Inr docs)
      from stream_and_save_frame [OF h0, of env chat_id docs "answer_messages query (fetch_originals (docstore st0) docs)"]
        gv gv' r Inr inr d0
      show ?thesis by (simp add: answer_generator_def)
    qed
  qed
qed

text \<open>
  A stream the endpoint starts: the chat history file exists, and the generator yields,
  prompts and raises what it would from the state before the user's message was saved.
\<close>

lemma query_chat_endpoint_run:
  assumes ep: "query_chat_endpoint env st chat_id x_api_key query k = Inr run"
  shows "chat_history_file st \<noteq> None \<and>
         ar_events run = ar_events (answer_generator env st chat_id query k) \<and>
         ar_prompts run = ar_prompts (answer_generator env st chat_id query k) \<and>
         ar_raised run = ar_raised (answer_generator env st chat_id query k)"
proof -
  from ep obtain chat_history c where
    h: "chat_history_file st = Some chat_history"
    and run: "run = answer_generator env
                (st\<lparr>chat_history_file :=
                      Some (AList.update chat_id
                              (c\<lparr>c_messages := c_messages c
                                    @ [\<lparr>m_sender = ''user'', m_text = query, m_chunks = None\<rparr>]\<rparr>)
                              chat_history)\<rparr>) chat_id query k"
    by (auto simp: query_chat_endpoint_def Let_def split: sum.splits option.splits)
  from h run
    answer_generator_frame [of "st\<lparr>chat_history_file :=
                      Some (AList.update chat_id
                              (c\<lparr>c_messages := c_messages c
                                    @ [\<lparr>m_sender = ''user'', m_text = query, m_chunks = None\<rparr>]\<rparr>)
                              chat_history)\<rparr>" st env chat_id query k]
  show ?thesis by simp
qed

text \<open>The endpoint starts a stream exactly for a request with a key and a known chat.\<close>

lemma query_chat_endpoint_starts:
  "(\<exists>run. query_chat_endpoint env st chat_id x_api_key query k = Inr run) =
   ((\<exists>api_key. x_api_key = Some api_key \<and> api_key \<noteq> []) \<and>
    (\<exists>chat_history c. chat_history_file st = Some chat_history \<and> map_of chat_history chat_id = Some c))"
  by (auto simp: query_chat_endpoint_def get_api_key_from_request_def Let_def
      split: sum.splits option.splits)




text \<open>The system prompt has the length of the source's.\<close>

lemma system_prompt_length: "length SYSTEM_PROMPT_TEMPLATE = 1595"
  by (simp add: SYSTEM_PROMPT_TEMPLATE_def)

lemma answer_messages_nothing:
  "answer_messages query [] =
     [SystemMessage (Str SYSTEM_PROMPT_TEMPLATE),
      HumanMessage (Str (''Query: '' @ query @ ''\<newline>\<newline>Context:\<newline>No context available.\<newline>\<newline>Answer:''))]"
  by (simp add: answer_messages_def answer_context_def)

lemma fetch_originals_no_ids: "doc_ids_of docs = [] \<Longrightarrow> fetch_originals ds docs = []"
  by (simp add: fetch_originals_def mget_def)

lemma doc_ids_of_placeholder: "doc_ids_of [] = [] \<and> doc_ids_of [dummy_doc] = []"
  by (simp add: doc_ids_of_def dummy_doc_def)

text \<open>
  The ingestion of a document without elements, after start-up, leaves the index with the
  placeholder alone; every search in it for one result or more returns the placeholder.
\<close>

lemma blank_ingestion:
  "snd (index_file_streaming faiss_env startup_state ''uploads/doc-1.docx'' ''doc-1'' ''blank.docx'')
     = (placeholder_state, None)"
  by (simp add: index_file_streaming_def get_vectorstore_def from_documents_def
      build_multimodal_elements_streaming_def all_tasks_def elements_by_kind_def
      count_stats_def save_and_register_def update_manifest_def
      read_documents_def new_chat_record_def preview_text_def str_nat.simps digit_def
      faiss_env_def quiet_env_def startup_state_def placeholder_state_def blank_document_def
      blank_chat_def Let_def)

lemma placeholder_search:
  "0 < k \<Longrightarrow> similarity_search faiss_env [dummy_doc] query k = Inr [dummy_doc]"
  by (cases "nat k") (simp_all add: faiss_env_def quiet_env_def)

text \<open>
  Claim C3. The claim: a query whose search returns no summary gets an explicit "nothing
  found" result, the generative model is not invoked, and nothing is raised. A search
  returns no summary when no document it returns carries an element id: it returns
  nothing, or documents without \<^verbatim>\<open>doc_id\<close> such as the placeholder of a new index (the case
  of the second test of \<^verbatim>\<open>query_rag\<close>, lines 579-583). As amended: for every stream the query
  endpoint starts on such a search, \<^verbatim>\<open>answer_generator\<close> sends the context event with the
  documents returned, prompts the model once with the context \<^verbatim>\<open>No context available.\<close>,
  sends the model's fragments and the end event, and does not raise. The result
  \<^verbatim>\<open>No relevant documents found for your query.\<close> is written in \<^verbatim>\<open>query_rag\<close> alone, which no
  endpoint calls and which, with the module-level handle \<^verbatim>\<open>None\<close> (all the module ever
  assigns to it), raises \<^verbatim>\<open>AttributeError\<close> before it searches.
\<close>

theorem no_summary_match:
  assumes ep: "query_chat_endpoint env st chat_id x_api_key query k = Inr run"
      and gv: "get_vectorstore env st = (Inr idx, st0)"
      and s: "similarity_search env idx query k = Inr docs"
      and z: "doc_ids_of docs = []"
  shows "ar_prompts run =
           [[SystemMessage (Str SYSTEM_PROMPT_TEMPLATE),
             HumanMessage (Str (''Query: '' @ query @ ''\<newline>\<newline>Context:\<newline>No context available.\<newline>\<newline>Answer:''))]] \<and>
         (\<exists>fragments. ar_events run = ContextEvent docs # map ChunkEvent fragments @ [EndEvent]) \<and>
         ar_raised run = None \<and>
         (vectorstore env = None \<longrightarrow>
            query_rag env (docstore st) query k = (Inl (AttributeError ''similarity_search''), []))"
proof -
  note r = query_chat_endpoint_run [OF ep]
  have f: "fetch_originals (docstore st) docs = []"
    by (rule fetch_originals_no_ids [OF z])
  obtain contents stream_exc where
    as: "astream env (answer_messages query (fetch_originals (docstore st) docs)) = (contents, stream_exc)"
    by (cases "astream env (answer_messages query (fetch_originals (docstore st) docs))") auto
  note g = answer_generator_events [OF gv s as, of chat_id]
  from r g f have p: "ar_prompts run = [answer_messages query []]"
    by simp
  from r g
  have ev: "ar_events run
          = ContextEvent docs # map ChunkEvent (filter (\<lambda>c. c \<noteq> []) contents @ closing_fragments contents stream_exc)
              @ [EndEvent]"
    and ra: "ar_raised run = None"
    by simp_all
  show ?thesis
  proof (intro conjI impI)
    from p show "ar_prompts run =
           [[SystemMessage (Str SYSTEM_PROMPT_TEMPLATE),
             HumanMessage (Str (''Query: '' @ query @ ''\<newline>\<newline>Context:\<newline>No context available.\<newline>\<newline>Answer:''))]]"
      by (simp add: answer_messages_nothing)
    from ev show "\<exists>fragments. ar_events run = ContextEvent docs # map ChunkEvent fragments @ [EndEvent]"
      by (rule exI)
    from ra show "ar_raised run = None" .
  next
    assume "vectorstore env = None"
    then show "query_rag env (docstore st) query k = (Inl (AttributeError ''similarity_search''), [])"
      by (simp add: query_rag_def)
  qed
qed

text \<open>
  Claim C3 as stated fails on the answer stream. A document without elements has been
  ingested, so the index holds the placeholder alone; the user asks in its conversation
  with the default \<^verbatim>\<open>k = 20\<close>. The search returns the placeholder, no summary; the model is
  prompted, once, with the context \<^verbatim>\<open>No context available.\<close>, and its answer is streamed.
\<close>

theorem placeholder_match_prompts_the_model:
  "similarity_search faiss_env [dummy_doc] revenue_query 20 = Inr [dummy_doc] \<and>
   map_sum id ar_prompts
     (query_chat_endpoint faiss_env placeholder_state ''chat-1'' (Some ''user-key'') revenue_query 20) =
     Inr [[SystemMessage (Str SYSTEM_PROMPT_TEMPLATE),
           HumanMessage (Str ''Query: What happened to revenue in Q3?\<newline>\<newline>Context:\<newline>No context available.\<newline>\<newline>Answer:'')]] \<and>
   map_sum id ar_events
     (query_chat_endpoint faiss_env placeholder_state ''chat-1'' (Some ''user-key'') revenue_query 20) =
     Inr [ContextEvent [dummy_doc],
          ChunkEvent ''I cannot find this information in the provided context.'', EndEvent]"
proof -
  have s: "similarity_search faiss_env [dummy_doc] revenue_query 20 = Inr [dummy_doc]"
    by (rule placeholder_search) simp
  have gv: "get_vectorstore faiss_env placeholder_state = (Inr [dummy_doc], placeholder_state)"
    by (simp add: get_vectorstore_def placeholder_state_def)
  have as: "astream faiss_env (answer_messages revenue_query (fetch_originals (docstore placeholder_state) [dummy_doc]))
              = ([''I cannot find this information in the provided context.''], None)"
    by (simp add: faiss_env_def quiet_env_def)
  have h: "chat_history_file placeholder_state \<noteq> None"
    by (simp add: placeholder_state_def)
  have nb: "strip ''I cannot find this information in the provided context.'' \<noteq> []"
    using isspace_I by (auto simp: strip_empty_iff)
  obtain run where
    ep: "query_chat_endpoint faiss_env placeholder_state ''chat-1'' (Some ''user-key'') revenue_query 20 = Inr run"
    by (simp add: query_chat_endpoint_def get_api_key_from_request_def placeholder_state_def Let_def)
  note r = query_chat_endpoint_run [OF ep]
  note g = answer_generator_events [OF gv s as, of "''chat-1''"]
  have f: "fetch_originals (docstore placeholder_state) [dummy_doc] = []"
    by (rule fetch_originals_no_ids) (simp add: doc_ids_of_placeholder)
  from r g h f have p: "ar_prompts run = [answer_messages revenue_query []]"
    by simp
  from r g h nb
  have ev: "ar_events run = [ContextEvent [dummy_doc],
          ChunkEvent ''I cannot find this information in the provided context.'', EndEvent]"
    by (simp add: closing_fragments_def)
  from s ep p ev show ?thesis
    by (simp add: answer_messages_nothing revenue_query_def)
qed

theorem no_summary_match_witness:
  "get_vectorstore faiss_env placeholder_state = (Inr [dummy_doc], placeholder_state) \<and>
   similarity_search faiss_env [dummy_doc] revenue_query 20 = Inr [dummy_doc] \<and>
   doc_ids_of [dummy_doc] = [] \<and>
   vectorstore faiss_env = None \<and>
   map_sum id ar_prompts
     (query_chat_endpoint faiss_env placeholder_state ''chat-1'' (Some ''user-key'') revenue_query 20) =
     Inr [[SystemMessage (Str SYSTEM_PROMPT_TEMPLATE),
           HumanMessage (Str (''Query: '' @ revenue_query @ ''\<newline>\<newline>Context:\<newline>No context available.\<newline>\<newline>Answer:''))]] \<and>
   map_sum id ar_raised
     (query_chat_endpoint faiss_env placeholder_state ''chat-1'' (Some ''user-key'') revenue_query 20) =
     Inr None \<and>
   query_rag faiss_env (docstore placeholder_state) revenue_query 20 =
     (Inl (AttributeError ''similarity_search''), [])"
proof -
  have s: "similarity_search faiss_env [dummy_doc] revenue_query 20 = Inr [dummy_doc]"
    by (rule placeholder_search) simp
  have gv: "get_vectorstore faiss_env placeholder_state = (Inr [dummy_doc], placeholder_state)"
    by (simp add: get_vectorstore_def placeholder_state_def)
  have z: "doc_ids_of [dummy_doc] = []"
    by (simp add: doc_ids_of_placeholder)
  have v: "vectorstore faiss_env = None"
    by (simp add: faiss_env_def quiet_env_def)
  obtain run where
    ep: "query_chat_endpoint faiss_env placeholder_state ''chat-1'' (Some ''user-key'') revenue_query 20 = Inr run"
    by (simp add: query_chat_endpoint_def get_api_key_from_request_def placeholder_state_def Let_def)
  from no_summary_match [OF ep gv s z] ep gv s z v
  show ?thesis by simp
qed

lemma error_response_cases:
  "(indicates_safety_block error_msg \<longrightarrow> content_safety_message (error_response error_msg)) \<and>
   (\<not> indicates_safety_block error_msg \<longrightarrow> error_response error_msg = generic_error_response) \<and>
   error_response error_msg \<in> {processing_issue_response, safety_block_response, generic_error_response}"
  using safety_messages by (auto simp: indicates_safety_block_def error_response_def)

text \<open>
  The generator from a state whose chat history file exists: an exception of the model's
  stream is answered by one fallback fragment and the end event.
\<close>

lemma model_failure_fallback:
  assumes gv: "get_vectorstore env st = (Inr idx, st0)"
      and s: "similarity_search env idx query k = Inr docs"
      and h: "chat_history_file st \<noteq> None"
      and a: "astream env (answer_messages query (fetch_originals (docstore st) docs)) = (contents, stream_exc)"
  shows "(stream_exc = Some error_msg \<longrightarrow>
            ar_events (answer_generator env st chat_id query k) =
              ContextEvent docs # map ChunkEvent (filter (\<lambda>c. c \<noteq> []) contents)
                @ [ChunkEvent (error_response error_msg), EndEvent]) \<and>
         (stream_exc = None \<and> (\<forall>c \<in> set contents. c = []) \<longrightarrow>
            ar_events (answer_generator env st chat_id query k) =
              [ContextEvent docs, ChunkEvent no_answer_response, EndEvent]) \<and>
         ar_raised (answer_generator env st chat_id query k) = None"
proof -
  have run: "answer_generator env st chat_id query k =
           stream_and_save env st0 chat_id docs (answer_messages query (fetch_originals (docstore st) docs))"
    by (rule answer_generator_retrieved [OF gv s])
  have h0: "chat_history_file st0 \<noteq> None"
    using get_vectorstore_success [OF gv] h by simp
  note ev = stream_and_save_events [OF a, of st0 chat_id docs]
  show ?thesis
  proof (intro conjI impI)
    assume e: "stream_exc = Some error_msg"
    with ev h0 run show "ar_events (answer_generator env st chat_id query k) =
              ContextEvent docs # map ChunkEvent (filter (\<lambda>c. c \<noteq> []) contents)
                @ [ChunkEvent (error_response error_msg), EndEvent]"
      by (simp add: closing_fragments_def)
  next
    assume n: "stream_exc = None \<and> (\<forall>c \<in> set contents. c = [])"
    then have "concat contents = []" "filter (\<lambda>c. c \<noteq> []) contents = []"
      by (auto simp: filter_empty_conv)
    with n ev h0 run show "ar_events (answer_generator env st chat_id query k) =
              [ContextEvent docs, ChunkEvent no_answer_response, EndEvent]"
      by (simp add: closing_fragments_def strip_Nil)
  next
    from ev h0 run show "ar_raised (answer_generator env st chat_id query k) = None"
      by simp
  qed
qed

text \<open>
  Claim C4. An answer stream is what the query endpoint starts (line 881, the only call of
  \<^verbatim>\<open>answer_generator\<close>); the model is prompted when the index loads and the search returns.
  When the model's stream then ends in an exception after any number of fragments, the
  answer stream is the context event, the model's non-empty fragments, exactly one
  fallback fragment and the end event, and the generator does not raise. The fallback is
  one of three fixed messages, chosen by the text of the exception: a message naming the
  content safety filters when the text indicates a safety block, the generic failure
  message otherwise (the generic message does not name the filters). When the stream
  ends normally without any content, the fixed apology is the only fragment.
\<close>

theorem stream_error_fallback:
  assumes ep: "query_chat_endpoint env st chat_id x_api_key query k = Inr run"
      and gv: "get_vectorstore env st = (Inr idx, st0)"
      and s: "similarity_search env idx query k = Inr docs"
      and a: "astream env (answer_messages query (fetch_originals (docstore st) docs)) = (contents, stream_exc)"
  shows "(stream_exc = Some error_msg \<longrightarrow>
            ar_events run =
              ContextEvent docs # map ChunkEvent (filter (\<lambda>c. c \<noteq> []) contents)
                @ [ChunkEvent (error_response error_msg), EndEvent] \<and>
            ar_raised run = None \<and>
            error_response error_msg
              \<in> {processing_issue_response, safety_block_response, generic_error_response} \<and>
            (indicates_safety_block error_msg \<longrightarrow> content_safety_message (error_response error_msg)) \<and>
            (\<not> indicates_safety_block error_msg \<longrightarrow> error_response error_msg = generic_error_response) \<and>
            \<not> content_safety_message generic_error_response) \<and>
         (stream_exc = None \<and> (\<forall>c \<in> set contents. c = []) \<longrightarrow>
            ar_events run = [ContextEvent docs, ChunkEvent no_answer_response, EndEvent] \<and>
            ar_raised run = None)"
proof -
  note r = query_chat_endpoint_run [OF ep]
  from r have h: "chat_history_file st \<noteq> None"
    by simp
  note m = model_failure_fallback [OF gv s h a, of error_msg chat_id]
  note c = error_response_cases [of error_msg]
  show ?thesis
  proof (intro conjI impI)
    assume e: "stream_exc = Some error_msg"
    with m r show "ar_events run =
              ContextEvent docs # map ChunkEvent (filter (\<lambda>c. c \<noteq> []) contents)
                @ [ChunkEvent (error_response error_msg), EndEvent]"
      by simp
    from m r show "ar_raised run = None"
      by simp
    from c show "error_response error_msg
              \<in> {processing_issue_response, safety_block_response, generic_error_response}"
      by blast
    show "\<not> content_safety_message generic_error_response"
      by (rule safety_messages)
  next
    assume "indicates_safety_block error_msg"
    with c show "content_safety_message (error_response error_msg)"
      by blast
  next
    assume "\<not> indicates_safety_block error_msg"
    with c show "error_response error_msg = generic_error_response"
      by blast
  next
    assume n: "stream_exc = None \<and> (\<forall>c \<in> set contents. c = [])"
    with m r show "ar_events run = [ContextEvent docs, ChunkEvent no_answer_response, EndEvent]"
      by simp
    from m r show "ar_raised run = None"
      by simp
  qed
qed

lemma error_texts:
  "indicates_safety_block ''finish_reason: SAFETY'' \<and>
   error_response ''finish_reason: SAFETY'' = safety_block_response \<and>
   indicates_safety_block ''list index out of range'' \<and>
   error_response ''list index out of range'' = processing_issue_response \<and>
   (indicates_safety_block ''Connection reset by peer'' = False) \<and>
   error_response ''Connection reset by peer'' = generic_error_response"
  by (simp add: indicates_safety_block_def error_response_def upper_def upper_char_def)

theorem stream_error_fallback_witness:
  "map_sum id ar_events
     (query_chat_endpoint blocked_env stocked_state ''chat-1'' (Some ''user-key'') revenue_query 20) =
     Inr [ContextEvent [summary_document old_chunk], ChunkEvent ''Revenue '',
          ChunkEvent safety_block_response, EndEvent] \<and>
   map_sum id ar_raised
     (query_chat_endpoint blocked_env stocked_state ''chat-1'' (Some ''user-key'') revenue_query 20) =
     Inr None \<and>
   indicates_safety_block ''finish_reason: SAFETY'' \<and>
   content_safety_message (error_response ''finish_reason: SAFETY'') \<and>
   map_sum id ar_events
     (query_chat_endpoint dropped_env stocked_state ''chat-1'' (Some ''user-key'') revenue_query 20) =
     Inr [ContextEvent [summary_document old_chunk], ChunkEvent ''Revenue grew '',
          ChunkEvent generic_error_response, EndEvent] \<and>
   indicates_safety_block ''Connection reset by peer'' = False \<and>
   map_sum id ar_events
     (query_chat_endpoint silent_env stocked_state ''chat-1'' (Some ''user-key'') revenue_query 20) =
     Inr [ContextEvent [summary_document old_chunk], ChunkEvent no_answer_response, EndEvent] \<and>
   map_sum id ar_raised
     (query_chat_endpoint silent_env stocked_state ''chat-1'' (Some ''user-key'') revenue_query 20) =
     Inr None"
proof -
  have sb: "similarity_search blocked_env [dummy_doc, summary_document old_chunk] revenue_query 20
     = Inr [summary_document old_chunk]"
    by (simp add: blocked_env_def streaming_env_def quiet_env_def)
  have ab: "astream blocked_env (answer_messages revenue_query
              (fetch_originals (docstore stocked_state) [summary_document old_chunk]))
            = ([''Revenue ''], Some ''finish_reason: SAFETY'')"
    by (simp add: blocked_env_def streaming_env_def quiet_env_def)
  have sd: "similarity_search dropped_env [dummy_doc, summary_document old_chunk] revenue_query 20
     = Inr [summary_document old_chunk]"
    by (simp add: dropped_env_def streaming_env_def quiet_env_def)
  have ad: "astream dropped_env (answer_messages revenue_query
              (fetch_originals (docstore stocked_state) [summary_document old_chunk]))
            = ([''Revenue grew ''], Some ''Connection reset by peer'')"
    by (simp add: dropped_env_def streaming_env_def quiet_env_def)
  have ss: "similarity_search silent_env [dummy_doc, summary_document old_chunk] revenue_query 20
     = Inr [summary_document old_chunk]"
    by (simp add: silent_env_def streaming_env_def quiet_env_def)
  have asl: "astream silent_env (answer_messages revenue_query
              (fetch_originals (docstore stocked_state) [summary_document old_chunk]))
            = ([[], []], None)"
    by (simp add: silent_env_def streaming_env_def quiet_env_def)
  obtain run_b where
    eb: "query_chat_endpoint blocked_env stocked_state ''chat-1'' (Some ''user-key'') revenue_query 20 = Inr run_b"
    by (simp add: query_chat_endpoint_def get_api_key_from_request_def stocked_state_def Let_def)
  obtain run_d where
    ed: "query_chat_endpoint dropped_env stocked_state ''chat-1'' (Some ''user-key'') revenue_query 20 = Inr run_d"
    by (simp add: query_chat_endpoint_def get_api_key_from_request_def stocked_state_def Let_def)
  obtain run_s where
    es: "query_chat_endpoint silent_env stocked_state ''chat-1'' (Some ''user-key'') revenue_query 20 = Inr run_s"
    by (simp add: query_chat_endpoint_def get_api_key_from_request_def stocked_state_def Let_def)
  from stream_error_fallback [OF eb stocked_vectorstore sb ab, of "''finish_reason: SAFETY''"]
    stream_error_fallback [OF ed stocked_vectorstore sd ad, of "''Connection reset by peer''"]
    stream_error_fallback [OF es stocked_vectorstore ss asl]
    eb ed es error_texts
  show ?thesis by simp
qed

lemma pop_document_find:
  "pop_document document_id docs =
     (find (\<lambda>doc. d_id doc = document_id) docs,
      case find (\<lambda>doc. d_id doc = document_id) docs of None \<Rightarrow> docs | Some doc \<Rightarrow> remove1 doc docs)"
proof (induction docs)
  case Nil
  then show ?case by simp
next
  case (Cons doc docs)
  show ?case
  proof (cases "d_id doc = document_id")
    case True
    then show ?thesis by simp
  next
    case False
    show ?thesis
    proof (cases "find (\<lambda>doc. d_id doc = document_id) docs")
      case None
      with Cons False show ?thesis by simp
    next
      case (Some found)
      then have "d_id found = document_id"
        by (auto simp: find_Some_iff)
      with False have "found \<noteq> doc" by auto
      with Cons False Some show ?thesis by simp
    qed
  qed
qed

lemma find_present:
  "document_id \<in> d_id ` set docs \<Longrightarrow> \<exists>doc. find (\<lambda>doc. d_id doc = document_id) docs = Some doc \<and> d_id doc = document_id"
  by (induction docs) auto

lemma delete_chat_endpoint_stores:
  "faiss_index (snd (delete_chat_endpoint st chat_id)) = faiss_index st \<and>
   docstore (snd (delete_chat_endpoint st chat_id)) = docstore st \<and>
   (chat_history_file (snd (delete_chat_endpoint st chat_id)) = None) = (chat_history_file st = None)"
  by (simp add: delete_chat_endpoint_def Let_def split: option.splits prod.splits)

text \<open>
  Claim C10. Deleting a conversation never changes the saved index or the content store,
  so every later answer stream has the events and prompts it would have had without the
  deletion: the summaries and originals of a deleted document stay retrievable. When the
  conversation is the last that refers to a document of the manifest, the deletion
  removes the conversation, the first manifest record with that id and its file, and
  nothing else.
\<close>

theorem deletion_leaves_stores:
  "faiss_index (snd (delete_chat_endpoint st chat_id)) = faiss_index st \<and>
   docstore (snd (delete_chat_endpoint st chat_id)) = docstore st \<and>
   ar_events (answer_generator env (snd (delete_chat_endpoint st chat_id)) chat_id' query k)
     = ar_events (answer_generator env st chat_id' query k) \<and>
   ar_prompts (answer_generator env (snd (delete_chat_endpoint st chat_id)) chat_id' query k)
     = ar_prompts (answer_generator env st chat_id' query k) \<and>
   (chat_history_file st = Some h \<and> map_of h chat_id = Some c \<and> c_document_id c \<noteq> [] \<and>
    (\<forall>(other_id, other) \<in> set h. other_id \<noteq> chat_id \<longrightarrow> c_document_id other \<noteq> c_document_id c) \<and>
    documents_file st = Some docs \<and> c_document_id c \<in> d_id ` set docs \<longrightarrow>
      (\<exists>doc. find (\<lambda>doc. d_id doc = c_document_id c) docs = Some doc \<and>
         snd (delete_chat_endpoint st chat_id) =
           st\<lparr>chat_history_file := Some (AList.delete chat_id h),
              documents_file := Some (remove1 doc docs),
              uploads := (if d_path doc \<noteq> [] then uploads st - {d_path doc} else uploads st)\<rparr>))"
proof (intro conjI impI)
  note s = delete_chat_endpoint_stores [of st chat_id]
  from s show "faiss_index (snd (delete_chat_endpoint st chat_id)) = faiss_index st"
    and "docstore (snd (delete_chat_endpoint st chat_id)) = docstore st"
    by simp_all
  from s answer_generator_frame [of "snd (delete_chat_endpoint st chat_id)" st env chat_id' query k]
  show "ar_events (answer_generator env (snd (delete_chat_endpoint st chat_id)) chat_id' query k)
     = ar_events (answer_generator env st chat_id' query k)"
    and "ar_prompts (answer_generator env (snd (delete_chat_endpoint st chat_id)) chat_id' query k)
     = ar_prompts (answer_generator env st chat_id' query k)"
    by simp_all
next
  assume a: "chat_history_file st = Some h \<and> map_of h chat_id = Some c \<and> c_document_id c \<noteq> [] \<and>
    (\<forall>(other_id, other) \<in> set h. other_id \<noteq> chat_id \<longrightarrow> c_document_id other \<noteq> c_document_id c) \<and>
    documents_file st = Some docs \<and> c_document_id c \<in> d_id ` set docs"
  then obtain doc where doc: "find (\<lambda>doc. d_id doc = c_document_id c) docs = Some doc"
    using find_present by blast
  from a have nobody: "\<not> list_ex (\<lambda>(other_id, other). c_document_id other = c_document_id c) (AList.delete chat_id h)"
    by (auto simp: list_ex_iff AList.delete_eq)
  have "snd (delete_chat_endpoint st chat_id) =
           st\<lparr>chat_history_file := Some (AList.delete chat_id h),
              documents_file := Some (remove1 doc docs),
              uploads := (if d_path doc \<noteq> [] then uploads st - {d_path doc} else uploads st)\<rparr>"
    using a doc nobody
    by (auto simp: delete_chat_endpoint_def Let_def pop_document_find)
  with doc show "\<exists>doc. find (\<lambda>doc. d_id doc = c_document_id c) docs = Some doc \<and>
         snd (delete_chat_endpoint st chat_id) =
           st\<lparr>chat_history_file := Some (AList.delete chat_id h),
              documents_file := Some (remove1 doc docs),
              uploads := (if d_path doc \<noteq> [] then uploads st - {d_path doc} else uploads st)\<rparr>"
    by blast
qed

lemma stocked_state_fields:
  "faiss_index stocked_state = Some [dummy_doc, summary_document old_chunk]"
  "docstore stocked_state = [''id-0'' \<mapsto> old_chunk]"
  "documents_file stocked_state = Some [report_document]"
  "chat_history_file stocked_state = Some [(''chat-1'', first_chat)]"
  "uploads stocked_state = {''uploads/doc-1.docx''}"
  by (simp_all add: stocked_state_def)

theorem deletion_leaves_stores_witness:
  "chat_history_file stocked_state = Some [(''chat-1'', first_chat)] \<and>
   map_of [(''chat-1'', first_chat)] ''chat-1'' = Some first_chat \<and>
   c_document_id first_chat = ''doc-1'' \<and>
   documents_file stocked_state = Some [report_document] \<and>
   snd (delete_chat_endpoint stocked_state ''chat-1'') =
     stocked_state\<lparr>chat_history_file := Some [], documents_file := Some [], uploads := {}\<rparr> \<and>
   faiss_index (snd (delete_chat_endpoint stocked_state ''chat-1'')) = Some [dummy_doc, summary_document old_chunk] \<and>
   docstore (snd (delete_chat_endpoint stocked_state ''chat-1'')) ''id-0'' = Some old_chunk \<and>
   ar_events (answer_generator streaming_env (snd (delete_chat_endpoint stocked_state ''chat-1'')) ''chat-9'' revenue_query 20)
     = ar_events (answer_generator streaming_env stocked_state ''chat-9'' revenue_query 20)"
proof -
  have d: "c_document_id first_chat = ''doc-1''" "d_id report_document = ''doc-1''"
    "d_path report_document = ''uploads/doc-1.docx''"
    by (simp_all add: first_chat_def report_document_def)
  note t = deletion_leaves_stores [of stocked_state "''chat-1''" streaming_env "''chat-9''" revenue_query 20
      "[(''chat-1'', first_chat)]" first_chat "[report_document]"]
  from t have f: "faiss_index (snd (delete_chat_endpoint stocked_state ''chat-1'')) = faiss_index stocked_state"
    by (rule conjunct1)
  from t have ds: "docstore (snd (delete_chat_endpoint stocked_state ''chat-1'')) = docstore stocked_state"
    by blast
  from t have ev: "ar_events (answer_generator streaming_env (snd (delete_chat_endpoint stocked_state ''chat-1'')) ''chat-9'' revenue_query 20)
     = ar_events (answer_generator streaming_env stocked_state ''chat-9'' revenue_query 20)"
    by blast
  from t have del: "snd (delete_chat_endpoint stocked_state ''chat-1'') =
     stocked_state\<lparr>chat_history_file := Some [], documents_file := Some [], uploads := {}\<rparr>"
    by (simp add: stocked_state_fields d)
  show ?thesis
  proof (intro conjI)
    show "snd (delete_chat_endpoint stocked_state ''chat-1'') =
      stocked_state\<lparr>chat_history_file := Some [], documents_file := Some [], uploads := {}\<rparr>"
      by (rule del)
    show "faiss_index (snd (delete_chat_endpoint stocked_state ''chat-1'')) = Some [dummy_doc, summary_document old_chunk]"
      using f by (simp add: stocked_state_fields)
    show "docstore (snd (delete_chat_endpoint stocked_state ''chat-1'')) ''id-0'' = Some old_chunk"
      using ds by (simp add: stocked_state_fields)
    show "ar_events (answer_generator streaming_env (snd (delete_chat_endpoint stocked_state ''chat-1'')) ''chat-9'' revenue_query 20)
     = ar_events (answer_generator streaming_env stocked_state ''chat-9'' revenue_query 20)"
      by (rule ev)
  qed (simp_all add: stocked_state_fields d)
qed

text \<open>Queries and deletions keep the pairing of the two stores.\<close>

lemma answer_generator_preserves_consistency:
  assumes inv: "stores_consistent st"
  shows "stores_consistent (ar_state (answer_generator env st chat_id query k))"
proof -
  obtain r0 st0 where gv: "get_vectorstore env st = (r0, st0)"
    by (cases "get_vectorstore env st") auto
  show ?thesis
  proof (cases r0)
    case (Inl e)
    with gv inv get_vectorstore_failure [of env st e st0] show ?thesis
      by (simp add: answer_generator_def)
  next
    case (Inr idx)
    note gvs = get_vectorstore_success [OF gv [unfolded Inr]]
    have inv0: "stores_consistent st0"
      using gvs inv by (auto simp: stores_consistent_def indexed_ids_dummy split: option.splits)
    have s: "faiss_index (ar_state (stream_and_save env st0 chat_id docs msgs)) = faiss_index st0 \<and>
             docstore (ar_state (stream_and_save env st0 chat_id docs msgs)) = docstore st0" for docs msgs
      by (simp add: stream_and_save_def Let_def split: prod.splits option.splits)
    show ?thesis
    proof (cases "similarity_search env idx query k")
      case (Inl e)
      with gv Inr inv0 show ?thesis by (simp add: answer_generator_def)
    next
      case inr: (Inr docs)
      with gv Inr inv0 s show ?thesis
        by (simp add: answer_generator_def stores_consistent_def)
    qed
  qed
qed

lemma delete_chat_endpoint_preserves_consistency:
  "stores_consistent st \<Longrightarrow> stores_consistent (snd (delete_chat_endpoint st chat_id))"
  using delete_chat_endpoint_stores [of st chat_id] by (simp add: stores_consistent_def)

end
